theory Spec2Isabelle
  imports Main "HOL-Library.Word" "HOL-Library.Char_ord" "HOL-Library.List_Lexorder"
    "HOL-Library.Finite_Map"
begin

unbundle bit_operations_syntax

section \<open>SHA-1 and hexadecimal rendering (crypto/sha1, fmt)\<close>

text \<open>
  \<^verbatim>\<open>toQueryString\<close> hashes the signing input with \<^verbatim>\<open>sha1.New()\<close>,
  \<^verbatim>\<open>io.WriteString(h, s)\<close> and \<^verbatim>\<open>h.Sum(nil)\<close>, and renders the 20 bytes with
  \<^verbatim>\<open>fmt.Sprintf("%x", ...)\<close>.  The digest is the FIPS 180 function on bytes; Go strings
  are byte sequences, as \<^typ>\<open>string\<close> is here.
\<close>

type_synonym byte = "8 word"

definition rotl32 :: "nat \<Rightarrow> 32 word \<Rightarrow> 32 word" where
  "rotl32 n x = push_bit n x OR drop_bit (32 - n) x"

definition be32 :: "byte list \<Rightarrow> 32 word" where
  "be32 bs = foldl (\<lambda>acc b. push_bit 8 acc OR ucast b) 0 bs"

definition putUint32 :: "32 word \<Rightarrow> byte list" where
  "putUint32 x = [ucast (drop_bit 24 x), ucast (drop_bit 16 x), ucast (drop_bit 8 x), ucast x]"

definition putUint64 :: "64 word \<Rightarrow> byte list" where
  "putUint64 x = map (\<lambda>i. ucast (drop_bit (8 * i) x)) [7, 6, 5, 4, 3, 2, 1, 0]"

definition sha1_pad :: "byte list \<Rightarrow> byte list" where
  "sha1_pad m =
     m @ [0x80] @ replicate ((119 - length m mod 64) mod 64) 0
       @ putUint64 (of_nat (8 * length m))"

definition sha1_schedule :: "byte list \<Rightarrow> 32 word list" where
  "sha1_schedule blk =
     fold (\<lambda>t w. w @ [rotl32 1 (w ! (t - 3) XOR w ! (t - 8) XOR w ! (t - 14) XOR w ! (t - 16))])
       [16..<80]
       (map (\<lambda>i. be32 (take 4 (drop (4 * i) blk))) [0..<16])"

type_synonym sha1_state = "32 word \<times> 32 word \<times> 32 word \<times> 32 word \<times> 32 word"

definition sha1_round :: "32 word list \<Rightarrow> nat \<Rightarrow> sha1_state \<Rightarrow> sha1_state" where
  "sha1_round w t s =
     (case s of (a, b, c, d, e) \<Rightarrow>
        let (f, k) =
              (if t < 20 then ((b AND c) OR (NOT b AND d), 0x5A827999)
               else if t < 40 then (b XOR c XOR d, 0x6ED9EBA1)
               else if t < 60 then ((b AND c) OR (b AND d) OR (c AND d), 0x8F1BBCDC)
               else (b XOR c XOR d, 0xCA62C1D6))
        in (rotl32 5 a + f + e + w ! t + k, a, rotl32 30 b, c, d))"

definition sha1_block :: "sha1_state \<Rightarrow> byte list \<Rightarrow> sha1_state" where
  "sha1_block h blk =
     (case h of (h0, h1, h2, h3, h4) \<Rightarrow>
        case fold (sha1_round (sha1_schedule blk)) [0..<80] h of (a, b, c, d, e) \<Rightarrow>
          (h0 + a, h1 + b, h2 + c, h3 + d, h4 + e))"

definition sha1_Sum :: "byte list \<Rightarrow> byte list" where
  "sha1_Sum m =
     (let p = sha1_pad m;
          blks = map (\<lambda>i. take 64 (drop (64 * i) p)) [0..<length p div 64]
      in case foldl sha1_block (0x67452301, 0xEFCDAB89, 0x98BADCFE, 0x10325476, 0xC3D2E1F0) blks
         of (h0, h1, h2, h3, h4) \<Rightarrow> concat (map putUint32 [h0, h1, h2, h3, h4]))"

definition ldigits :: string where
  "ldigits = ''0123456789abcdef''"

definition Sprintf_x :: "byte list \<Rightarrow> string" where
  "Sprintf_x bs = concat (map (\<lambda>b. [ldigits ! (unat b div 16), ldigits ! (unat b mod 16)]) bs)"

definition sha1_hex :: "string \<Rightarrow> string" where
  "sha1_hex s = Sprintf_x (sha1_Sum (map of_char s))"

section \<open>URL escaping (net/url)\<close>

text \<open>
  \<^verbatim>\<open>url.Values.Encode\<close> on a one-entry value set yields
  \<^verbatim>\<open>QueryEscape(key) + "=" + QueryEscape(value)\<close>.  \<^verbatim>\<open>QueryEscape\<close> keeps ASCII
  letters, digits and \<^verbatim>\<open>- _ . ~\<close>, turns a space into \<^verbatim>\<open>+\<close> and writes every
  other byte as \<^verbatim>\<open>%XX\<close> with upper-case digits.
\<close>

definition upperhex :: string where
  "upperhex = ''0123456789ABCDEF''"

definition shouldEscape :: "char \<Rightarrow> bool" where
  "shouldEscape c =
     (if (CHR ''A'' \<le> c \<and> c \<le> CHR ''Z'') \<or> (CHR ''a'' \<le> c \<and> c \<le> CHR ''z'')
          \<or> (CHR ''0'' \<le> c \<and> c \<le> CHR ''9'') then False
      else if c \<in> set ''-_.~'' then False
      else True)"

definition QueryEscape :: "string \<Rightarrow> string" where
  "QueryEscape s =
     concat (map (\<lambda>c. if c = CHR '' '' then ''+''
                       else if shouldEscape c
                         then [CHR ''%'', upperhex ! (of_char c div 16), upperhex ! (of_char c mod 16)]
                       else [c]) s)"

definition Encode1 :: "string \<Rightarrow> string \<Rightarrow> string" where
  "Encode1 k v = QueryEscape k @ ''='' @ QueryEscape v"

section \<open>Parameter maps and the signed query string (ulb.go)\<close>

text \<open>
  \<^verbatim>\<open>fmt.Sprintf("%v", value)\<close> on the two field types the parameter structs have:
  a string prints as itself, an \<^verbatim>\<open>int\<close> in decimal with a leading minus sign when
  negative.  No arithmetic is done on these integers, so they are \<^typ>\<open>int\<close>.
\<close>

datatype fvalue = StringV string | IntV int

fun FormatUint :: "nat \<Rightarrow> string" where
  "FormatUint n =
     (if n < 10 then [''0123456789'' ! n]
      else FormatUint (n div 10) @ [''0123456789'' ! (n mod 10)])"

definition Sprintf_v :: "fvalue \<Rightarrow> string" where
  "Sprintf_v v =
     (case v of
        StringV s \<Rightarrow> s
      | IntV i \<Rightarrow> (if i < 0 then ''-'' @ FormatUint (nat (- i)) else FormatUint (nat i)))"

text \<open>
  \<^verbatim>\<open>type Params map[string]string\<close>.  Indexing a Go map at an absent key gives the
  zero value, the empty string.
\<close>

type_synonym Params = "(string, string) fmap"

definition index :: "Params \<Rightarrow> string \<Rightarrow> string" where
  "index p k = (case fmlookup p k of None \<Rightarrow> [] | Some v \<Rightarrow> v)"

text \<open>
  \<^verbatim>\<open>toParams\<close> walks the struct by reflection.  A struct value is seen here as
  reflection sees it: the list of its fields in declaration order, each with its
  \<^verbatim>\<open>json\<close> tag and its value.
\<close>

definition toParams :: "(string \<times> fvalue) list \<Rightarrow> Params" where
  "toParams fields = fold (\<lambda>(tag, val) params. fmupd tag (Sprintf_v val) params) fields fmempty"

text \<open>
  \<^verbatim>\<open>Params.toQueryString\<close>.  The first loop ranges over the map in the order the
  runtime picks and keeps the keys with a non-empty value; \<^verbatim>\<open>sort.Strings\<close> then
  fixes the order, so the enumeration order of the map does not reach the result and
  the keys are enumerated in ascending order here.
\<close>

definition keys :: "Params \<Rightarrow> string list" where
  "keys p = sort (filter (\<lambda>k. index p k \<noteq> []) (sorted_list_of_fset (fmdom p)))"

definition signingInput :: "Params \<Rightarrow> string" where
  "signingInput p =
     foldl (\<lambda>s k. if k = ''PrivateKey'' \<or> k = ''Signature'' then s else s @ k @ index p k)
       [] (keys p)
     @ index p ''PrivateKey''"

definition sig :: "Params \<Rightarrow> string" where
  "sig p = sha1_hex (signingInput p)"

definition toQueryString :: "Params \<Rightarrow> string" where
  "toQueryString p =
     foldl (\<lambda>qs k. if k = ''PrivateKey'' \<or> k = ''Signature'' then qs
                    else qs @ ''&'' @ Encode1 k (index p k))
       [] (keys p)
     @ ''&'' @ Encode1 ''Signature'' (sig p)"

text \<open>
  The parameter structs.  Each has its \<open>fields\<close> (what \<^verbatim>\<open>reflect\<close> shows of it: the
  \<^verbatim>\<open>json\<close> tag and value of every field, in declaration order), the zero value a
  composite literal starts from, and its \<^verbatim>\<open>setKey\<close> method.
\<close>

record DescribeUHostInstanceParam =
  Action :: string
  PublicKey :: string
  PrivateKey :: string
  Signature :: string
  ProjectID :: string
  Region :: string
  Zone :: string
  UHostIDsN :: string
  Tag :: string
  Offset :: int
  Limit :: int

definition zero_DescribeUHostInstanceParam :: DescribeUHostInstanceParam where
  "zero_DescribeUHostInstanceParam =
     \<lparr>DescribeUHostInstanceParam.Action = [], DescribeUHostInstanceParam.PublicKey = [],
      DescribeUHostInstanceParam.PrivateKey = [], DescribeUHostInstanceParam.Signature = [],
      DescribeUHostInstanceParam.ProjectID = [], DescribeUHostInstanceParam.Region = [],
      DescribeUHostInstanceParam.Zone = [], DescribeUHostInstanceParam.UHostIDsN = [],
      DescribeUHostInstanceParam.Tag = [], DescribeUHostInstanceParam.Offset = 0,
      DescribeUHostInstanceParam.Limit = 0\<rparr>"

definition fields_DescribeUHostInstanceParam ::
  "DescribeUHostInstanceParam \<Rightarrow> (string \<times> fvalue) list" where
  "fields_DescribeUHostInstanceParam p =
     [(''Action'', StringV (DescribeUHostInstanceParam.Action p)),
      (''PublicKey'', StringV (DescribeUHostInstanceParam.PublicKey p)),
      (''PrivateKey'', StringV (DescribeUHostInstanceParam.PrivateKey p)),
      (''Signature'', StringV (DescribeUHostInstanceParam.Signature p)),
      (''ProjectId'', StringV (DescribeUHostInstanceParam.ProjectID p)),
      (''Region'', StringV (DescribeUHostInstanceParam.Region p)),
      (''zone'', StringV (DescribeUHostInstanceParam.Zone p)),
      (''UHostIds.n'', StringV (DescribeUHostInstanceParam.UHostIDsN p)),
      (''tag'', StringV (DescribeUHostInstanceParam.Tag p)),
      (''offset'', IntV (DescribeUHostInstanceParam.Offset p)),
      (''limit'', IntV (DescribeUHostInstanceParam.Limit p))]"

definition setKey_DescribeUHostInstanceParam ::
  "DescribeUHostInstanceParam \<Rightarrow> string \<Rightarrow> string \<Rightarrow> DescribeUHostInstanceParam" where
  "setKey_DescribeUHostInstanceParam p pubKey privKey =
     p\<lparr>DescribeUHostInstanceParam.Action := ''DescribeUHostInstance'',
       DescribeUHostInstanceParam.PublicKey := pubKey,
       DescribeUHostInstanceParam.PrivateKey := privKey\<rparr>"

record DescribeULBParam =
  Action :: string
  PublicKey :: string
  PrivateKey :: string
  Signature :: string
  ProjectID :: string
  Region :: string
  Offset :: int
  Limit :: int
  ULBID :: string

definition zero_DescribeULBParam :: DescribeULBParam where
  "zero_DescribeULBParam =
     \<lparr>DescribeULBParam.Action = [], DescribeULBParam.PublicKey = [],
      DescribeULBParam.PrivateKey = [], DescribeULBParam.Signature = [],
      DescribeULBParam.ProjectID = [], DescribeULBParam.Region = [],
      DescribeULBParam.Offset = 0, DescribeULBParam.Limit = 0, DescribeULBParam.ULBID = []\<rparr>"

definition fields_DescribeULBParam ::
  "DescribeULBParam \<Rightarrow> (string \<times> fvalue) list" where
  "fields_DescribeULBParam p =
     [(''Action'', StringV (DescribeULBParam.Action p)),
      (''PublicKey'', StringV (DescribeULBParam.PublicKey p)),
      (''PrivateKey'', StringV (DescribeULBParam.PrivateKey p)),
      (''Signature'', StringV (DescribeULBParam.Signature p)),
      (''ProjectId'', StringV (DescribeULBParam.ProjectID p)),
      (''Region'', StringV (DescribeULBParam.Region p)),
      (''Offset'', IntV (DescribeULBParam.Offset p)),
      (''Limit'', IntV (DescribeULBParam.Limit p)),
      (''ULBId'', StringV (DescribeULBParam.ULBID p))]"

definition setKey_DescribeULBParam ::
  "DescribeULBParam \<Rightarrow> string \<Rightarrow> string \<Rightarrow> DescribeULBParam" where
  "setKey_DescribeULBParam p pubKey privKey =
     p\<lparr>DescribeULBParam.Action := ''DescribeULB'',
       DescribeULBParam.PublicKey := pubKey,
       DescribeULBParam.PrivateKey := privKey\<rparr>"

record CreateULBParam =
  Action :: string
  PublicKey :: string
  PrivateKey :: string
  Signature :: string
  ProjectID :: string
  Region :: string
  ULBName :: string
  Tag :: string
  Remark :: string
  OuterMode :: string
  InnerMode :: string
  ChargeType :: string

definition zero_CreateULBParam :: CreateULBParam where
  "zero_CreateULBParam =
     \<lparr>CreateULBParam.Action = [], CreateULBParam.PublicKey = [], CreateULBParam.PrivateKey = [],
      CreateULBParam.Signature = [], CreateULBParam.ProjectID = [], CreateULBParam.Region = [],
      CreateULBParam.ULBName = [], CreateULBParam.Tag = [], CreateULBParam.Remark = [],
      CreateULBParam.OuterMode = [], CreateULBParam.InnerMode = [],
      CreateULBParam.ChargeType = []\<rparr>"

definition fields_CreateULBParam ::
  "CreateULBParam \<Rightarrow> (string \<times> fvalue) list" where
  "fields_CreateULBParam p =
     [(''Action'', StringV (CreateULBParam.Action p)),
      (''PublicKey'', StringV (CreateULBParam.PublicKey p)),
      (''PrivateKey'', StringV (CreateULBParam.PrivateKey p)),
      (''Signature'', StringV (CreateULBParam.Signature p)),
      (''ProjectId'', StringV (CreateULBParam.ProjectID p)),
      (''Region'', StringV (CreateULBParam.Region p)),
      (''ULBName'', StringV (CreateULBParam.ULBName p)),
      (''Tag'', StringV (CreateULBParam.Tag p)),
      (''Remark'', StringV (CreateULBParam.Remark p)),
      (''OuterMode'', StringV (CreateULBParam.OuterMode p)),
      (''InnerMode'', StringV (CreateULBParam.InnerMode p)),
      (''ChargeType'', StringV (CreateULBParam.ChargeType p))]"

definition setKey_CreateULBParam ::
  "CreateULBParam \<Rightarrow> string \<Rightarrow> string \<Rightarrow> CreateULBParam" where
  "setKey_CreateULBParam p pubKey privKey =
     p\<lparr>CreateULBParam.Action := ''CreateULB'',
       CreateULBParam.PublicKey := pubKey,
       CreateULBParam.PrivateKey := privKey\<rparr>"

record DeleteULBParam =
  Action :: string
  PublicKey :: string
  PrivateKey :: string
  Signature :: string
  ProjectID :: string
  Region :: string
  ULBID :: string

definition zero_DeleteULBParam :: DeleteULBParam where
  "zero_DeleteULBParam =
     \<lparr>DeleteULBParam.Action = [], DeleteULBParam.PublicKey = [], DeleteULBParam.PrivateKey = [],
      DeleteULBParam.Signature = [], DeleteULBParam.ProjectID = [], DeleteULBParam.Region = [],
      DeleteULBParam.ULBID = []\<rparr>"

definition fields_DeleteULBParam ::
  "DeleteULBParam \<Rightarrow> (string \<times> fvalue) list" where
  "fields_DeleteULBParam p =
     [(''Action'', StringV (DeleteULBParam.Action p)),
      (''PublicKey'', StringV (DeleteULBParam.PublicKey p)),
      (''PrivateKey'', StringV (DeleteULBParam.PrivateKey p)),
      (''Signature'', StringV (DeleteULBParam.Signature p)),
      (''ProjectId'', StringV (DeleteULBParam.ProjectID p)),
      (''Region'', StringV (DeleteULBParam.Region p)),
      (''ULBId'', StringV (DeleteULBParam.ULBID p))]"

definition setKey_DeleteULBParam ::
  "DeleteULBParam \<Rightarrow> string \<Rightarrow> string \<Rightarrow> DeleteULBParam" where
  "setKey_DeleteULBParam p pubKey privKey =
     p\<lparr>DeleteULBParam.Action := ''DeleteULB'',
       DeleteULBParam.PublicKey := pubKey,
       DeleteULBParam.PrivateKey := privKey\<rparr>"

record UpdateULBAttributeParam =
  Action :: string
  PublicKey :: string
  PrivateKey :: string
  Signature :: string
  ProjectID :: string
  Region :: string
  ULBID :: string
  Name :: string
  Tag :: string
  Remark :: string

definition zero_UpdateULBAttributeParam :: UpdateULBAttributeParam where
  "zero_UpdateULBAttributeParam =
     \<lparr>UpdateULBAttributeParam.Action = [], UpdateULBAttributeParam.PublicKey = [],
      UpdateULBAttributeParam.PrivateKey = [], UpdateULBAttributeParam.Signature = [],
      UpdateULBAttributeParam.ProjectID = [], UpdateULBAttributeParam.Region = [],
      UpdateULBAttributeParam.ULBID = [], UpdateULBAttributeParam.Name = [],
      UpdateULBAttributeParam.Tag = [], UpdateULBAttributeParam.Remark = []\<rparr>"

definition fields_UpdateULBAttributeParam ::
  "UpdateULBAttributeParam \<Rightarrow> (string \<times> fvalue) list" where
  "fields_UpdateULBAttributeParam p =
     [(''Action'', StringV (UpdateULBAttributeParam.Action p)),
      (''PublicKey'', StringV (UpdateULBAttributeParam.PublicKey p)),
      (''PrivateKey'', StringV (UpdateULBAttributeParam.PrivateKey p)),
      (''Signature'', StringV (UpdateULBAttributeParam.Signature p)),
      (''ProjectId'', StringV (UpdateULBAttributeParam.ProjectID p)),
      (''Region'', StringV (UpdateULBAttributeParam.Region p)),
      (''ULBId'', StringV (UpdateULBAttributeParam.ULBID p)),
      (''Name'', StringV (UpdateULBAttributeParam.Name p)),
      (''Tag'', StringV (UpdateULBAttributeParam.Tag p)),
      (''Remark'', StringV (UpdateULBAttributeParam.Remark p))]"

definition setKey_UpdateULBAttributeParam ::
  "UpdateULBAttributeParam \<Rightarrow> string \<Rightarrow> string \<Rightarrow> UpdateULBAttributeParam" where
  "setKey_UpdateULBAttributeParam p pubKey privKey =
     p\<lparr>UpdateULBAttributeParam.Action := ''UpdateULBAttribute'',
       UpdateULBAttributeParam.PublicKey := pubKey,
       UpdateULBAttributeParam.PrivateKey := privKey\<rparr>"

record CreateVServerParam =
  Action :: string
  PublicKey :: string
  PrivateKey :: string
  Signature :: string
  ProjectID :: string
  Region :: string
  ULBID :: string
  VServerName :: string
  ListenType :: string
  Protocol :: string
  FrontendPort :: int
  Method :: string
  PersistenceType :: string
  PersistenceInfo :: string
  ClientTimeout :: int

definition zero_CreateVServerParam :: CreateVServerParam where
  "zero_CreateVServerParam =
     \<lparr>CreateVServerParam.Action = [], CreateVServerParam.PublicKey = [],
      CreateVServerParam.PrivateKey = [], CreateVServerParam.Signature = [],
      CreateVServerParam.ProjectID = [], CreateVServerParam.Region = [],
      CreateVServerParam.ULBID = [], CreateVServerParam.VServerName = [],
      CreateVServerParam.ListenType = [], CreateVServerParam.Protocol = [],
      CreateVServerParam.FrontendPort = 0, CreateVServerParam.Method = [],
      CreateVServerParam.PersistenceType = [], CreateVServerParam.PersistenceInfo = [],
      CreateVServerParam.ClientTimeout = 0\<rparr>"

definition fields_CreateVServerParam ::
  "CreateVServerParam \<Rightarrow> (string \<times> fvalue) list" where
  "fields_CreateVServerParam p =
     [(''Action'', StringV (CreateVServerParam.Action p)),
      (''PublicKey'', StringV (CreateVServerParam.PublicKey p)),
      (''PrivateKey'', StringV (CreateVServerParam.PrivateKey p)),
      (''Signature'', StringV (CreateVServerParam.Signature p)),
      (''ProjectId'', StringV (CreateVServerParam.ProjectID p)),
      (''Region'', StringV (CreateVServerParam.Region p)),
      (''ULBId'', StringV (CreateVServerParam.ULBID p)),
      (''VServerName'', StringV (CreateVServerParam.VServerName p)),
      (''ListenType'', StringV (CreateVServerParam.ListenType p)),
      (''Protocol'', StringV (CreateVServerParam.Protocol p)),
      (''FrontendPort'', IntV (CreateVServerParam.FrontendPort p)),
      (''Method'', StringV (CreateVServerParam.Method p)),
      (''PersistenceType'', StringV (CreateVServerParam.PersistenceType p)),
      (''PersistenceInfo'', StringV (CreateVServerParam.PersistenceInfo p)),
      (''ClientTimeout'', IntV (CreateVServerParam.ClientTimeout p))]"

definition setKey_CreateVServerParam ::
  "CreateVServerParam \<Rightarrow> string \<Rightarrow> string \<Rightarrow> CreateVServerParam" where
  "setKey_CreateVServerParam p pubKey privKey =
     p\<lparr>CreateVServerParam.Action := ''CreateVServer'',
       CreateVServerParam.PublicKey := pubKey,
       CreateVServerParam.PrivateKey := privKey\<rparr>"

record DeleteVServerParam =
  Action :: string
  PublicKey :: string
  PrivateKey :: string
  Signature :: string
  ProjectID :: string
  Region :: string
  ULBID :: string
  VServerID :: string

definition zero_DeleteVServerParam :: DeleteVServerParam where
  "zero_DeleteVServerParam =
     \<lparr>DeleteVServerParam.Action = [], DeleteVServerParam.PublicKey = [],
      DeleteVServerParam.PrivateKey = [], DeleteVServerParam.Signature = [],
      DeleteVServerParam.ProjectID = [], DeleteVServerParam.Region = [],
      DeleteVServerParam.ULBID = [], DeleteVServerParam.VServerID = []\<rparr>"

definition fields_DeleteVServerParam ::
  "DeleteVServerParam \<Rightarrow> (string \<times> fvalue) list" where
  "fields_DeleteVServerParam p =
     [(''Action'', StringV (DeleteVServerParam.Action p)),
      (''PublicKey'', StringV (DeleteVServerParam.PublicKey p)),
      (''PrivateKey'', StringV (DeleteVServerParam.PrivateKey p)),
      (''Signature'', StringV (DeleteVServerParam.Signature p)),
      (''ProjectId'', StringV (DeleteVServerParam.ProjectID p)),
      (''Region'', StringV (DeleteVServerParam.Region p)),
      (''ULBId'', StringV (DeleteVServerParam.ULBID p)),
      (''VServerId'', StringV (DeleteVServerParam.VServerID p))]"

definition setKey_DeleteVServerParam ::
  "DeleteVServerParam \<Rightarrow> string \<Rightarrow> string \<Rightarrow> DeleteVServerParam" where
  "setKey_DeleteVServerParam p pubKey privKey =
     p\<lparr>DeleteVServerParam.Action := ''DeleteVServer'',
       DeleteVServerParam.PublicKey := pubKey,
       DeleteVServerParam.PrivateKey := privKey\<rparr>"

record UpdateVServerAttributeParam =
  Action :: string
  PublicKey :: string
  PrivateKey :: string
  Signature :: string
  ProjectID :: string
  Region :: string
  ULBID :: string
  VServerID :: string
  VServerName :: string
  Protocol :: string
  Method :: string
  PersistenceType :: string
  PersistenceInfo :: string
  ClientTimeout :: int

definition zero_UpdateVServerAttributeParam :: UpdateVServerAttributeParam where
  "zero_UpdateVServerAttributeParam =
     \<lparr>UpdateVServerAttributeParam.Action = [], UpdateVServerAttributeParam.PublicKey = [],
      UpdateVServerAttributeParam.PrivateKey = [], UpdateVServerAttributeParam.Signature = [],
      UpdateVServerAttributeParam.ProjectID = [], UpdateVServerAttributeParam.Region = [],
      UpdateVServerAttributeParam.ULBID = [], UpdateVServerAttributeParam.VServerID = [],
      UpdateVServerAttributeParam.VServerName = [], UpdateVServerAttributeParam.Protocol = [],
      UpdateVServerAttributeParam.Method = [], UpdateVServerAttributeParam.PersistenceType = [],
      UpdateVServerAttributeParam.PersistenceInfo = [],
      UpdateVServerAttributeParam.ClientTimeout = 0\<rparr>"

definition fields_UpdateVServerAttributeParam ::
  "UpdateVServerAttributeParam \<Rightarrow> (string \<times> fvalue) list" where
  "fields_UpdateVServerAttributeParam p =
     [(''Action'', StringV (UpdateVServerAttributeParam.Action p)),
      (''PublicKey'', StringV (UpdateVServerAttributeParam.PublicKey p)),
      (''PrivateKey'', StringV (UpdateVServerAttributeParam.PrivateKey p)),
      (''Signature'', StringV (UpdateVServerAttributeParam.Signature p)),
      (''ProjectId'', StringV (UpdateVServerAttributeParam.ProjectID p)),
      (''Region'', StringV (UpdateVServerAttributeParam.Region p)),
      (''ULBId'', StringV (UpdateVServerAttributeParam.ULBID p)),
      (''VServerId'', StringV (UpdateVServerAttributeParam.VServerID p)),
      (''VServerName'', StringV (UpdateVServerAttributeParam.VServerName p)),
      (''Protocol'', StringV (UpdateVServerAttributeParam.Protocol p)),
      (''Method'', StringV (UpdateVServerAttributeParam.Method p)),
      (''PersistenceType'', StringV (UpdateVServerAttributeParam.PersistenceType p)),
      (''PersistenceInfo'', StringV (UpdateVServerAttributeParam.PersistenceInfo p)),
      (''ClientTimeout'', IntV (UpdateVServerAttributeParam.ClientTimeout p))]"

definition setKey_UpdateVServerAttributeParam ::
  "UpdateVServerAttributeParam \<Rightarrow> string \<Rightarrow> string \<Rightarrow> UpdateVServerAttributeParam" where
  "setKey_UpdateVServerAttributeParam p pubKey privKey =
     p\<lparr>UpdateVServerAttributeParam.Action := ''UpdateVServerAttribute'',
       UpdateVServerAttributeParam.PublicKey := pubKey,
       UpdateVServerAttributeParam.PrivateKey := privKey\<rparr>"

record AllocateBackendParam =
  Action :: string
  PublicKey :: string
  PrivateKey :: string
  Signature :: string
  ProjectID :: string
  Region :: string
  ULBID :: string
  VServerID :: string
  ResourceType :: string
  ResourceID :: string
  Port :: int
  Enabled :: int

definition zero_AllocateBackendParam :: AllocateBackendParam where
  "zero_AllocateBackendParam =
     \<lparr>AllocateBackendParam.Action = [], AllocateBackendParam.PublicKey = [],
      AllocateBackendParam.PrivateKey = [], AllocateBackendParam.Signature = [],
      AllocateBackendParam.ProjectID = [], AllocateBackendParam.Region = [],
      AllocateBackendParam.ULBID = [], AllocateBackendParam.VServerID = [],
      AllocateBackendParam.ResourceType = [], AllocateBackendParam.ResourceID = [],
      AllocateBackendParam.Port = 0, AllocateBackendParam.Enabled = 0\<rparr>"

definition fields_AllocateBackendParam ::
  "AllocateBackendParam \<Rightarrow> (string \<times> fvalue) list" where
  "fields_AllocateBackendParam p =
     [(''Action'', StringV (AllocateBackendParam.Action p)),
      (''PublicKey'', StringV (AllocateBackendParam.PublicKey p)),
      (''PrivateKey'', StringV (AllocateBackendParam.PrivateKey p)),
      (''Signature'', StringV (AllocateBackendParam.Signature p)),
      (''ProjectId'', StringV (AllocateBackendParam.ProjectID p)),
      (''Region'', StringV (AllocateBackendParam.Region p)),
      (''ULBId'', StringV (AllocateBackendParam.ULBID p)),
      (''VServerId'', StringV (AllocateBackendParam.VServerID p)),
      (''ResourceType'', StringV (AllocateBackendParam.ResourceType p)),
      (''ResourceId'', StringV (AllocateBackendParam.ResourceID p)),
      (''Port'', IntV (AllocateBackendParam.Port p)),
      (''Enabled'', IntV (AllocateBackendParam.Enabled p))]"

definition setKey_AllocateBackendParam ::
  "AllocateBackendParam \<Rightarrow> string \<Rightarrow> string \<Rightarrow> AllocateBackendParam" where
  "setKey_AllocateBackendParam p pubKey privKey =
     p\<lparr>AllocateBackendParam.Action := ''AllocateBackend'',
       AllocateBackendParam.PublicKey := pubKey,
       AllocateBackendParam.PrivateKey := privKey\<rparr>"

record UpdateBackendAttributeParam =
  Action :: string
  PublicKey :: string
  PrivateKey :: string
  Signature :: string
  ProjectID :: string
  Region :: string
  ULBID :: string
  BackendID :: string
  Port :: int
  Enabled :: int

definition zero_UpdateBackendAttributeParam :: UpdateBackendAttributeParam where
  "zero_UpdateBackendAttributeParam =
     \<lparr>UpdateBackendAttributeParam.Action = [], UpdateBackendAttributeParam.PublicKey = [],
      UpdateBackendAttributeParam.PrivateKey = [], UpdateBackendAttributeParam.Signature = [],
      UpdateBackendAttributeParam.ProjectID = [], UpdateBackendAttributeParam.Region = [],
      UpdateBackendAttributeParam.ULBID = [], UpdateBackendAttributeParam.BackendID = [],
      UpdateBackendAttributeParam.Port = 0, UpdateBackendAttributeParam.Enabled = 0\<rparr>"

definition fields_UpdateBackendAttributeParam ::
  "UpdateBackendAttributeParam \<Rightarrow> (string \<times> fvalue) list" where
  "fields_UpdateBackendAttributeParam p =
     [(''Action'', StringV (UpdateBackendAttributeParam.Action p)),
      (''PublicKey'', StringV (UpdateBackendAttributeParam.PublicKey p)),
      (''PrivateKey'', StringV (UpdateBackendAttributeParam.PrivateKey p)),
      (''Signature'', StringV (UpdateBackendAttributeParam.Signature p)),
      (''ProjectId'', StringV (UpdateBackendAttributeParam.ProjectID p)),
      (''Region'', StringV (UpdateBackendAttributeParam.Region p)),
      (''ULBId'', StringV (UpdateBackendAttributeParam.ULBID p)),
      (''BackendId'', StringV (UpdateBackendAttributeParam.BackendID p)),
      (''Port'', IntV (UpdateBackendAttributeParam.Port p)),
      (''Enabled'', IntV (UpdateBackendAttributeParam.Enabled p))]"

definition setKey_UpdateBackendAttributeParam ::
  "UpdateBackendAttributeParam \<Rightarrow> string \<Rightarrow> string \<Rightarrow> UpdateBackendAttributeParam" where
  "setKey_UpdateBackendAttributeParam p pubKey privKey =
     p\<lparr>UpdateBackendAttributeParam.Action := ''UpdateBackendAttribute'',
       UpdateBackendAttributeParam.PublicKey := pubKey,
       UpdateBackendAttributeParam.PrivateKey := privKey\<rparr>"

record ReleaseBackendParam =
  Action :: string
  PublicKey :: string
  PrivateKey :: string
  Signature :: string
  ProjectID :: string
  Region :: string
  ULBID :: string
  BackendID :: string

definition zero_ReleaseBackendParam :: ReleaseBackendParam where
  "zero_ReleaseBackendParam =
     \<lparr>ReleaseBackendParam.Action = [], ReleaseBackendParam.PublicKey = [],
      ReleaseBackendParam.PrivateKey = [], ReleaseBackendParam.Signature = [],
      ReleaseBackendParam.ProjectID = [], ReleaseBackendParam.Region = [],
      ReleaseBackendParam.ULBID = [], ReleaseBackendParam.BackendID = []\<rparr>"

definition fields_ReleaseBackendParam ::
  "ReleaseBackendParam \<Rightarrow> (string \<times> fvalue) list" where
  "fields_ReleaseBackendParam p =
     [(''Action'', StringV (ReleaseBackendParam.Action p)),
      (''PublicKey'', StringV (ReleaseBackendParam.PublicKey p)),
      (''PrivateKey'', StringV (ReleaseBackendParam.PrivateKey p)),
      (''Signature'', StringV (ReleaseBackendParam.Signature p)),
      (''ProjectId'', StringV (ReleaseBackendParam.ProjectID p)),
      (''Region'', StringV (ReleaseBackendParam.Region p)),
      (''ULBId'', StringV (ReleaseBackendParam.ULBID p)),
      (''BackendId'', StringV (ReleaseBackendParam.BackendID p))]"

definition setKey_ReleaseBackendParam ::
  "ReleaseBackendParam \<Rightarrow> string \<Rightarrow> string \<Rightarrow> ReleaseBackendParam" where
  "setKey_ReleaseBackendParam p pubKey privKey =
     p\<lparr>ReleaseBackendParam.Action := ''ReleaseBackend'',
       ReleaseBackendParam.PublicKey := pubKey,
       ReleaseBackendParam.PrivateKey := privKey\<rparr>"

record AllocateEIPParam =
  Action :: string
  PublicKey :: string
  PrivateKey :: string
  Signature :: string
  Region :: string
  OperatorName :: string
  Bandwidth :: int
  Tag :: string
  ChargeType :: string
  Quantity :: int
  PayMode :: string
  ShareBandwidthID :: string
  CouponID :: string
  Name :: string
  Remark :: string

definition zero_AllocateEIPParam :: AllocateEIPParam where
  "zero_AllocateEIPParam =
     \<lparr>AllocateEIPParam.Action = [], AllocateEIPParam.PublicKey = [],
      AllocateEIPParam.PrivateKey = [], AllocateEIPParam.Signature = [],
      AllocateEIPParam.Region = [], AllocateEIPParam.OperatorName = [],
      AllocateEIPParam.Bandwidth = 0, AllocateEIPParam.Tag = [],
      AllocateEIPParam.ChargeType = [], AllocateEIPParam.Quantity = 0,
      AllocateEIPParam.PayMode = [], AllocateEIPParam.ShareBandwidthID = [],
      AllocateEIPParam.CouponID = [], AllocateEIPParam.Name = [], AllocateEIPParam.Remark = []\<rparr>"

definition fields_AllocateEIPParam ::
  "AllocateEIPParam \<Rightarrow> (string \<times> fvalue) list" where
  "fields_AllocateEIPParam p =
     [(''Action'', StringV (AllocateEIPParam.Action p)),
      (''PublicKey'', StringV (AllocateEIPParam.PublicKey p)),
      (''PrivateKey'', StringV (AllocateEIPParam.PrivateKey p)),
      (''Signature'', StringV (AllocateEIPParam.Signature p)),
      (''Region'', StringV (AllocateEIPParam.Region p)),
      (''OperatorName'', StringV (AllocateEIPParam.OperatorName p)),
      (''Bandwidth'', IntV (AllocateEIPParam.Bandwidth p)),
      (''tag'', StringV (AllocateEIPParam.Tag p)),
      (''ChargeType'', StringV (AllocateEIPParam.ChargeType p)),
      (''Quantity'', IntV (AllocateEIPParam.Quantity p)),
      (''PayMode'', StringV (AllocateEIPParam.PayMode p)),
      (''ShareBandwidth'', StringV (AllocateEIPParam.ShareBandwidthID p)),
      (''CouponId'', StringV (AllocateEIPParam.CouponID p)),
      (''Name'', StringV (AllocateEIPParam.Name p)),
      (''Remark'', StringV (AllocateEIPParam.Remark p))]"

definition setKey_AllocateEIPParam ::
  "AllocateEIPParam \<Rightarrow> string \<Rightarrow> string \<Rightarrow> AllocateEIPParam" where
  "setKey_AllocateEIPParam p pubKey privKey =
     p\<lparr>AllocateEIPParam.Action := ''AllocateEIP'',
       AllocateEIPParam.PublicKey := pubKey,
       AllocateEIPParam.PrivateKey := privKey\<rparr>"

record ReleaseEIPParam =
  Action :: string
  PublicKey :: string
  PrivateKey :: string
  Signature :: string
  Region :: string
  EIPID :: string

definition zero_ReleaseEIPParam :: ReleaseEIPParam where
  "zero_ReleaseEIPParam =
     \<lparr>ReleaseEIPParam.Action = [], ReleaseEIPParam.PublicKey = [],
      ReleaseEIPParam.PrivateKey = [], ReleaseEIPParam.Signature = [],
      ReleaseEIPParam.Region = [], ReleaseEIPParam.EIPID = []\<rparr>"

definition fields_ReleaseEIPParam ::
  "ReleaseEIPParam \<Rightarrow> (string \<times> fvalue) list" where
  "fields_ReleaseEIPParam p =
     [(''Action'', StringV (ReleaseEIPParam.Action p)),
      (''PublicKey'', StringV (ReleaseEIPParam.PublicKey p)),
      (''PrivateKey'', StringV (ReleaseEIPParam.PrivateKey p)),
      (''Signature'', StringV (ReleaseEIPParam.Signature p)),
      (''Region'', StringV (ReleaseEIPParam.Region p)),
      (''EIPId'', StringV (ReleaseEIPParam.EIPID p))]"

definition setKey_ReleaseEIPParam ::
  "ReleaseEIPParam \<Rightarrow> string \<Rightarrow> string \<Rightarrow> ReleaseEIPParam" where
  "setKey_ReleaseEIPParam p pubKey privKey =
     p\<lparr>ReleaseEIPParam.Action := ''ReleaseEIP'',
       ReleaseEIPParam.PublicKey := pubKey,
       ReleaseEIPParam.PrivateKey := privKey\<rparr>"

record BindEIPParam =
  Action :: string
  PublicKey :: string
  PrivateKey :: string
  Signature :: string
  Region :: string
  EIPID :: string
  ResourceType :: string
  ResourceID :: string

definition zero_BindEIPParam :: BindEIPParam where
  "zero_BindEIPParam =
     \<lparr>BindEIPParam.Action = [], BindEIPParam.PublicKey = [], BindEIPParam.PrivateKey = [],
      BindEIPParam.Signature = [], BindEIPParam.Region = [], BindEIPParam.EIPID = [],
      BindEIPParam.ResourceType = [], BindEIPParam.ResourceID = []\<rparr>"

definition fields_BindEIPParam ::
  "BindEIPParam \<Rightarrow> (string \<times> fvalue) list" where
  "fields_BindEIPParam p =
     [(''Action'', StringV (BindEIPParam.Action p)),
      (''PublicKey'', StringV (BindEIPParam.PublicKey p)),
      (''PrivateKey'', StringV (BindEIPParam.PrivateKey p)),
      (''Signature'', StringV (BindEIPParam.Signature p)),
      (''Region'', StringV (BindEIPParam.Region p)),
      (''EIPId'', StringV (BindEIPParam.EIPID p)),
      (''ResourceType'', StringV (BindEIPParam.ResourceType p)),
      (''ResourceId'', StringV (BindEIPParam.ResourceID p))]"

definition setKey_BindEIPParam ::
  "BindEIPParam \<Rightarrow> string \<Rightarrow> string \<Rightarrow> BindEIPParam" where
  "setKey_BindEIPParam p pubKey privKey =
     p\<lparr>BindEIPParam.Action := ''BindEIP'',
       BindEIPParam.PublicKey := pubKey,
       BindEIPParam.PrivateKey := privKey\<rparr>"

record UnBindEIPParam =
  Action :: string
  PublicKey :: string
  PrivateKey :: string
  Signature :: string
  Region :: string
  EIPID :: string
  ResourceType :: string
  ResourceID :: string

definition zero_UnBindEIPParam :: UnBindEIPParam where
  "zero_UnBindEIPParam =
     \<lparr>UnBindEIPParam.Action = [], UnBindEIPParam.PublicKey = [], UnBindEIPParam.PrivateKey = [],
      UnBindEIPParam.Signature = [], UnBindEIPParam.Region = [], UnBindEIPParam.EIPID = [],
      UnBindEIPParam.ResourceType = [], UnBindEIPParam.ResourceID = []\<rparr>"

definition fields_UnBindEIPParam ::
  "UnBindEIPParam \<Rightarrow> (string \<times> fvalue) list" where
  "fields_UnBindEIPParam p =
     [(''Action'', StringV (UnBindEIPParam.Action p)),
      (''PublicKey'', StringV (UnBindEIPParam.PublicKey p)),
      (''PrivateKey'', StringV (UnBindEIPParam.PrivateKey p)),
      (''Signature'', StringV (UnBindEIPParam.Signature p)),
      (''Region'', StringV (UnBindEIPParam.Region p)),
      (''EIPId'', StringV (UnBindEIPParam.EIPID p)),
      (''ResourceType'', StringV (UnBindEIPParam.ResourceType p)),
      (''ResourceId'', StringV (UnBindEIPParam.ResourceID p))]"

definition setKey_UnBindEIPParam ::
  "UnBindEIPParam \<Rightarrow> string \<Rightarrow> string \<Rightarrow> UnBindEIPParam" where
  "setKey_UnBindEIPParam p pubKey privKey =
     p\<lparr>UnBindEIPParam.Action := ''UnBindEIP'',
       UnBindEIPParam.PublicKey := pubKey,
       UnBindEIPParam.PrivateKey := privKey\<rparr>"

text \<open>
  The \<^verbatim>\<open>Parameter\<close> interface is implemented by exactly these structs, each with
  \<^verbatim>\<open>params := toParams(p); return params.toQueryString()\<close>.
\<close>

datatype Parameter =
    PDescribeUHostInstance DescribeUHostInstanceParam
  | PDescribeULB DescribeULBParam
  | PCreateULB CreateULBParam
  | PDeleteULB DeleteULBParam
  | PUpdateULBAttribute UpdateULBAttributeParam
  | PCreateVServer CreateVServerParam
  | PDeleteVServer DeleteVServerParam
  | PUpdateVServerAttribute UpdateVServerAttributeParam
  | PAllocateBackend AllocateBackendParam
  | PUpdateBackendAttribute UpdateBackendAttributeParam
  | PReleaseBackend ReleaseBackendParam
  | PAllocateEIP AllocateEIPParam
  | PReleaseEIP ReleaseEIPParam
  | PBindEIP BindEIPParam
  | PUnBindEIP UnBindEIPParam

fun QueryString :: "Parameter \<Rightarrow> string" where
  "QueryString (PDescribeUHostInstance p) =
     toQueryString (toParams (fields_DescribeUHostInstanceParam p))"
| "QueryString (PDescribeULB p) =
     toQueryString (toParams (fields_DescribeULBParam p))"
| "QueryString (PCreateULB p) =
     toQueryString (toParams (fields_CreateULBParam p))"
| "QueryString (PDeleteULB p) =
     toQueryString (toParams (fields_DeleteULBParam p))"
| "QueryString (PUpdateULBAttribute p) =
     toQueryString (toParams (fields_UpdateULBAttributeParam p))"
| "QueryString (PCreateVServer p) =
     toQueryString (toParams (fields_CreateVServerParam p))"
| "QueryString (PDeleteVServer p) =
     toQueryString (toParams (fields_DeleteVServerParam p))"
| "QueryString (PUpdateVServerAttribute p) =
     toQueryString (toParams (fields_UpdateVServerAttributeParam p))"
| "QueryString (PAllocateBackend p) =
     toQueryString (toParams (fields_AllocateBackendParam p))"
| "QueryString (PUpdateBackendAttribute p) =
     toQueryString (toParams (fields_UpdateBackendAttributeParam p))"
| "QueryString (PReleaseBackend p) =
     toQueryString (toParams (fields_ReleaseBackendParam p))"
| "QueryString (PAllocateEIP p) =
     toQueryString (toParams (fields_AllocateEIPParam p))"
| "QueryString (PReleaseEIP p) =
     toQueryString (toParams (fields_ReleaseEIPParam p))"
| "QueryString (PBindEIP p) =
     toQueryString (toParams (fields_BindEIPParam p))"
| "QueryString (PUnBindEIP p) =
     toQueryString (toParams (fields_UnBindEIPParam p))"

section \<open>Response records (ulb.go)\<close>

record ReturnStatus =
  RetCode :: int
  Action :: string
  Message :: string

record UHostDiskSet =
  Type :: string
  DiskID :: string
  Name :: string
  Drive :: string
  Size :: int

record UHostIPSet =
  Type :: string
  IPID :: string
  IP :: string
  Bandwidth :: int

record UHostInstanceSet =
  UHostID :: string
  UHostType :: string
  Zone :: string
  StorageType :: string
  ImageID :: string
  BasicImageID :: string
  BasicImageName :: string
  Tag :: string
  Remark :: string
  Name :: string
  State :: string
  CreateTime :: int
  ChargeType :: string
  ExpireTime :: int
  CPU :: int
  Memory :: int
  AutoRenew :: string
  DiskSet :: "UHostDiskSet list"
  IPSet :: "UHostIPSet list"
  NetCapability :: string
  NetworkState :: string
  TimemachineFeature :: string
  HotplugFeature :: bool

record DescribeUHostInstanceResponse = ReturnStatus +
  TotalCount :: int
  UHostSet :: "UHostInstanceSet list"

record ULBIPSet =
  OperatorName :: string
  EIP :: string
  EIPID :: string

record SSLBindedTargetSet =
  VServerID :: string
  VServerName :: string
  ULBID :: string
  ULBName :: string

record ULBSSLSet =
  SSLID :: string
  SSLName :: string
  SSLType :: string
  SSLContent :: string
  CreateTime :: int
  SSLBindedTargetSet :: "SSLBindedTargetSet list"

record ULBBackendSet =
  BackendID :: string
  ResourceType :: string
  ResourceID :: string
  ResourceName :: string
  PrivateIP :: string
  Port :: int
  Enabled :: int
  Status :: int

record ULBVServerSet =
  VserverID :: string
  VServerName :: string
  Protocol :: string
  FrontendPort :: int
  Method :: string
  PersistenceType :: string
  PersistenceInfo :: string
  ClientTimeout :: int
  Status :: int
  SSLSet :: "ULBSSLSet list"
  VServerSet :: "ULBBackendSet list"

record ULBSet =
  ULBID :: string
  ULBName :: string
  Name :: string
  Tag :: string
  Remark :: string
  BandwidthType :: int
  Bandwidth :: int
  CreateTime :: int
  ExpireTime :: int
  IPSet :: "ULBIPSet list"
  VServerSet :: "ULBVServerSet list"
  ULBType :: string

record DescribeULBResponse = ReturnStatus +
  TotalCount :: int
  DataSet :: "ULBSet list"

record CreateULBResponse = ReturnStatus +
  ULBID :: string

record CreateVServerResponse = ReturnStatus +
  VServerID :: string

record AllocateBackendResponse = ReturnStatus +
  BackendID :: string

record UnetEIPAddrSet =
  OperatorName :: string
  IP :: string

record UnetAllocateEIPSet =
  EIPID :: string
  EIPAddr :: "UnetEIPAddrSet list"

record AllocateEIPResponse = ReturnStatus +
  EIPSet :: "UnetAllocateEIPSet list"

type_synonym DeleteULBResponse = ReturnStatus
type_synonym UpdateULBAttributeResponse = ReturnStatus
type_synonym DeleteVServerResponse = ReturnStatus
type_synonym UpdateVServerAttributeResponse = ReturnStatus
type_synonym UpdateBackendAttributeResponse = ReturnStatus
type_synonym ReleaseBackendResponse = ReturnStatus
type_synonym ReleaseEIPResponse = ReturnStatus
type_synonym BindEIPResponse = ReturnStatus
type_synonym UnBindEIPResponse = ReturnStatus

section \<open>The typed API client (ulb.go)\<close>

text \<open>
  Go errors are compared by identity.  The two sentinels of the package are
  constructors of their own; an error made by \<^verbatim>\<open>errors.New\<close> is never identical to
  a sentinel, whatever its text.  \<open>HttpError\<close> stands for the error \<^verbatim>\<open>http.Get\<close>
  returns and \<open>JsonError\<close> for the one the JSON decoder returns.
\<close>

datatype error =
    ULBNotFound
  | EIPNotFound
  | ErrorsNew string
  | HttpError string
  | JsonError string

text \<open>A nil pointer dereference or an index out of range stops the goroutine.\<close>

datatype panic = NilDereference | IndexOutOfRange

datatype logline = LogError error | LogMessage string

text \<open>
  What the program does to its surroundings: the URLs it has fetched with
  \<^verbatim>\<open>http.Get\<close>, oldest first, and the lines it has written with \<^verbatim>\<open>glog.Error\<close>.
  The \<^verbatim>\<open>glog.V(3).Infof\<close> traces are left out.
\<close>

record world =
  requests :: "string list"
  errlog :: "logline list"

definition glogError :: "logline \<Rightarrow> world \<Rightarrow> world" where
  "glogError l w = w\<lparr>errlog := errlog w @ [l]\<rparr>"

text \<open>
  The host's service object, as far as this package reads it:
  \<^verbatim>\<open>service.Spec.Ports[i].Port\<close>, an \<^verbatim>\<open>int32\<close>.
\<close>

record ServicePort =
  Port :: "32 word"

record ServiceSpec =
  Ports :: "ServicePort list"

record Service =
  Spec :: ServiceSpec

text \<open>
  What the package is run against.  \<open>httpGet\<close> is the remote endpoint: given the URLs
  fetched so far and the URL fetched now, the text of a transport failure or a response
  body.  The \<open>decode\<close> fields are \<^verbatim>\<open>json.NewDecoder(body).Decode(r)\<close> at each
  response type: the record the decoder has filled, and its error if it reports one.
  \<open>GetLoadBalancerName\<close> is the host's \<^verbatim>\<open>cloudprovider.GetLoadBalancerName\<close>.
  \<open>rangeSeed\<close> is the runtime's choice of the order in which a \<^verbatim>\<open>range\<close> over a map
  with the given keys visits them (see \<open>permute\<close>).
\<close>

record 'b env =
  httpGet :: "string list \<Rightarrow> string \<Rightarrow> string + 'b"
  decodeStatus :: "'b \<Rightarrow> ReturnStatus \<times> string option"
  decodeDescribeULB :: "'b \<Rightarrow> DescribeULBResponse \<times> string option"
  decodeCreateULB :: "'b \<Rightarrow> CreateULBResponse \<times> string option"
  decodeCreateVServer :: "'b \<Rightarrow> CreateVServerResponse \<times> string option"
  decodeAllocateBackend :: "'b \<Rightarrow> AllocateBackendResponse \<times> string option"
  decodeAllocateEIP :: "'b \<Rightarrow> AllocateEIPResponse \<times> string option"
  decodeDescribeUHostInstance :: "'b \<Rightarrow> DescribeUHostInstanceResponse \<times> string option"
  GetLoadBalancerName :: "Service \<Rightarrow> string"
  rangeSeed :: "string list \<Rightarrow> nat list"

record UClient =
  BaseURL :: string
  PublicKey :: string
  PrivateKey :: string

definition New :: "string \<Rightarrow> string \<Rightarrow> string \<Rightarrow> UClient" where
  "New baseURL pubKey privKey =
     \<lparr>UClient.BaseURL = baseURL, UClient.PublicKey = pubKey, UClient.PrivateKey = privKey\<rparr>"

definition GetQueryURL :: "UClient \<Rightarrow> Parameter \<Rightarrow> string" where
  "GetQueryURL c p = UClient.BaseURL c @ ''/?'' @ QueryString p"

text \<open>
  Every method of \<^verbatim>\<open>UClient\<close> has the same body after its \<^verbatim>\<open>setKey\<close> call: one
  \<^verbatim>\<open>http.Get\<close> of the query URL; on its error \<^verbatim>\<open>return nil, err\<close>; otherwise a
  fresh response record, decoded from the body, and \<^verbatim>\<open>return r, err\<close> with the
  decoder's error.  The result is the Go pair: a pointer that may be nil and an error
  that may be nil.
\<close>

definition getAndDecode ::
  "'b env \<Rightarrow> string \<Rightarrow> ('b \<Rightarrow> 'r \<times> string option) \<Rightarrow> world
     \<Rightarrow> ('r option \<times> error option) \<times> world" where
  "getAndDecode env url decode w =
     (let w' = w\<lparr>requests := requests w @ [url]\<rparr>
      in case httpGet env (requests w) url of
           Inl err \<Rightarrow> ((None, Some (HttpError err)), w')
         | Inr body \<Rightarrow>
             (case decode body of (r, err) \<Rightarrow> ((Some r, map_option JsonError err), w')))"

definition DescribeULB ::
  "'b env \<Rightarrow> UClient \<Rightarrow> DescribeULBParam \<Rightarrow> world
     \<Rightarrow> (DescribeULBResponse option \<times> error option) \<times> world" where
  "DescribeULB env c p =
     getAndDecode env
       (GetQueryURL c
          (PDescribeULB (setKey_DescribeULBParam p (UClient.PublicKey c) (UClient.PrivateKey c))))
       (decodeDescribeULB env)"

definition CreateULB ::
  "'b env \<Rightarrow> UClient \<Rightarrow> CreateULBParam \<Rightarrow> world
     \<Rightarrow> (CreateULBResponse option \<times> error option) \<times> world" where
  "CreateULB env c p =
     getAndDecode env
       (GetQueryURL c
          (PCreateULB (setKey_CreateULBParam p (UClient.PublicKey c) (UClient.PrivateKey c))))
       (decodeCreateULB env)"

definition UpdateULBAttribute ::
  "'b env \<Rightarrow> UClient \<Rightarrow> UpdateULBAttributeParam \<Rightarrow> world
     \<Rightarrow> (UpdateULBAttributeResponse option \<times> error option) \<times> world" where
  "UpdateULBAttribute env c p =
     getAndDecode env
       (GetQueryURL c
          (PUpdateULBAttribute (setKey_UpdateULBAttributeParam p (UClient.PublicKey c) (UClient.PrivateKey c))))
       (decodeStatus env)"

definition DeleteULB ::
  "'b env \<Rightarrow> UClient \<Rightarrow> DeleteULBParam \<Rightarrow> world
     \<Rightarrow> (DeleteULBResponse option \<times> error option) \<times> world" where
  "DeleteULB env c p =
     getAndDecode env
       (GetQueryURL c
          (PDeleteULB (setKey_DeleteULBParam p (UClient.PublicKey c) (UClient.PrivateKey c))))
       (decodeStatus env)"

definition CreateVServer ::
  "'b env \<Rightarrow> UClient \<Rightarrow> CreateVServerParam \<Rightarrow> world
     \<Rightarrow> (CreateVServerResponse option \<times> error option) \<times> world" where
  "CreateVServer env c p =
     getAndDecode env
       (GetQueryURL c
          (PCreateVServer (setKey_CreateVServerParam p (UClient.PublicKey c) (UClient.PrivateKey c))))
       (decodeCreateVServer env)"

definition UpdateVServerAttribute ::
  "'b env \<Rightarrow> UClient \<Rightarrow> UpdateVServerAttributeParam \<Rightarrow> world
     \<Rightarrow> (UpdateVServerAttributeResponse option \<times> error option) \<times> world" where
  "UpdateVServerAttribute env c p =
     getAndDecode env
       (GetQueryURL c
          (PUpdateVServerAttribute (setKey_UpdateVServerAttributeParam p (UClient.PublicKey c) (UClient.PrivateKey c))))
       (decodeStatus env)"

definition DeleteVServer ::
  "'b env \<Rightarrow> UClient \<Rightarrow> DeleteVServerParam \<Rightarrow> world
     \<Rightarrow> (DeleteVServerResponse option \<times> error option) \<times> world" where
  "DeleteVServer env c p =
     getAndDecode env
       (GetQueryURL c
          (PDeleteVServer (setKey_DeleteVServerParam p (UClient.PublicKey c) (UClient.PrivateKey c))))
       (decodeStatus env)"

definition AllocateBackend ::
  "'b env \<Rightarrow> UClient \<Rightarrow> AllocateBackendParam \<Rightarrow> world
     \<Rightarrow> (AllocateBackendResponse option \<times> error option) \<times> world" where
  "AllocateBackend env c p =
     getAndDecode env
       (GetQueryURL c
          (PAllocateBackend (setKey_AllocateBackendParam p (UClient.PublicKey c) (UClient.PrivateKey c))))
       (decodeAllocateBackend env)"

definition UpdateBackendAttribute ::
  "'b env \<Rightarrow> UClient \<Rightarrow> UpdateBackendAttributeParam \<Rightarrow> world
     \<Rightarrow> (UpdateBackendAttributeResponse option \<times> error option) \<times> world" where
  "UpdateBackendAttribute env c p =
     getAndDecode env
       (GetQueryURL c
          (PUpdateBackendAttribute (setKey_UpdateBackendAttributeParam p (UClient.PublicKey c) (UClient.PrivateKey c))))
       (decodeStatus env)"

definition ReleaseBackend ::
  "'b env \<Rightarrow> UClient \<Rightarrow> ReleaseBackendParam \<Rightarrow> world
     \<Rightarrow> (ReleaseBackendResponse option \<times> error option) \<times> world" where
  "ReleaseBackend env c p =
     getAndDecode env
       (GetQueryURL c
          (PReleaseBackend (setKey_ReleaseBackendParam p (UClient.PublicKey c) (UClient.PrivateKey c))))
       (decodeStatus env)"

definition AllocateEIP ::
  "'b env \<Rightarrow> UClient \<Rightarrow> AllocateEIPParam \<Rightarrow> world
     \<Rightarrow> (AllocateEIPResponse option \<times> error option) \<times> world" where
  "AllocateEIP env c p =
     getAndDecode env
       (GetQueryURL c
          (PAllocateEIP (setKey_AllocateEIPParam p (UClient.PublicKey c) (UClient.PrivateKey c))))
       (decodeAllocateEIP env)"

definition BindEIP ::
  "'b env \<Rightarrow> UClient \<Rightarrow> BindEIPParam \<Rightarrow> world
     \<Rightarrow> (BindEIPResponse option \<times> error option) \<times> world" where
  "BindEIP env c p =
     getAndDecode env
       (GetQueryURL c
          (PBindEIP (setKey_BindEIPParam p (UClient.PublicKey c) (UClient.PrivateKey c))))
       (decodeStatus env)"

definition UnbindEIP ::
  "'b env \<Rightarrow> UClient \<Rightarrow> UnBindEIPParam \<Rightarrow> world
     \<Rightarrow> (UnBindEIPResponse option \<times> error option) \<times> world" where
  "UnbindEIP env c p =
     getAndDecode env
       (GetQueryURL c
          (PUnBindEIP (setKey_UnBindEIPParam p (UClient.PublicKey c) (UClient.PrivateKey c))))
       (decodeStatus env)"

definition ReleaseEIP ::
  "'b env \<Rightarrow> UClient \<Rightarrow> ReleaseEIPParam \<Rightarrow> world
     \<Rightarrow> (ReleaseEIPResponse option \<times> error option) \<times> world" where
  "ReleaseEIP env c p =
     getAndDecode env
       (GetQueryURL c
          (PReleaseEIP (setKey_ReleaseEIPParam p (UClient.PublicKey c) (UClient.PrivateKey c))))
       (decodeStatus env)"

definition DescribeUHostInstance ::
  "'b env \<Rightarrow> UClient \<Rightarrow> DescribeUHostInstanceParam \<Rightarrow> world
     \<Rightarrow> (DescribeUHostInstanceResponse option \<times> error option) \<times> world" where
  "DescribeUHostInstance env c p =
     getAndDecode env
       (GetQueryURL c
          (PDescribeUHostInstance (setKey_DescribeUHostInstanceParam p (UClient.PublicKey c) (UClient.PrivateKey c))))
       (decodeDescribeUHostInstance env)"

section \<open>The provider adapter (ucloud.go)\<close>

record Cloud =
  UClient :: UClient
  Region :: string
  Zone :: string
  ProjectID :: string
  selfInstance :: "UHostInstanceSet option"

text \<open>
  A \<^verbatim>\<open>range\<close> over a Go map visits the entries in an order the runtime picks.  Every
  order is \<open>permute ns\<close> of the ascending one for some \<open>ns\<close>, and \<open>permute ns\<close> is a
  permutation for every \<open>ns\<close>: the next entry visited is the one at position
  \<open>n mod length xs\<close> among those left.
\<close>

fun permute :: "nat list \<Rightarrow> 'a list \<Rightarrow> 'a list" where
  "permute ns [] = []"
| "permute [] xs = xs"
| "permute (n # ns) xs =
     (let i = n mod length xs in xs ! i # permute ns (take i xs @ drop (Suc i) xs))"

definition rangeMap :: "'b env \<Rightarrow> (string, 'v) fmap \<Rightarrow> (string \<times> 'v) list" where
  "rangeMap env m =
     (let ks = sorted_list_of_fset (fmdom m)
      in List.map_filter (\<lambda>k. map_option (Pair k) (fmlookup m k)) (permute (rangeSeed env ks) ks))"

definition describeLoadBalancer ::
  "'b env \<Rightarrow> Cloud \<Rightarrow> string \<Rightarrow> world \<Rightarrow> (panic + ULBSet option \<times> error option) \<times> world" where
  "describeLoadBalancer env c name w =
     (let p = zero_DescribeULBParam
                \<lparr>DescribeULBParam.Region := Cloud.Region c,
                 DescribeULBParam.ProjectID := Cloud.ProjectID c,
                 DescribeULBParam.Limit := 100\<rparr>
      in case DescribeULB env (Cloud.UClient c) p w of
           ((resp, Some err), w') \<Rightarrow> (Inr (None, Some err), w')
         | ((None, None), w') \<Rightarrow> (Inl NilDereference, w')
         | ((Some resp, None), w') \<Rightarrow>
             if ReturnStatus.RetCode resp \<noteq> 0 then (Inr (None, Some ULBNotFound), w')
             else (case find (\<lambda>lb. ULBSet.Name lb = name) (DescribeULBResponse.DataSet resp) of
                     Some lb \<Rightarrow> (Inr (Some lb, None), w')
                   | None \<Rightarrow> (Inr (None, Some ULBNotFound), w')))"

text \<open>The loop of \<^verbatim>\<open>deleteLoadBalancer\<close> over \<^verbatim>\<open>ulbSet.IPSet\<close>.\<close>

fun releaseEIPs :: "'b env \<Rightarrow> Cloud \<Rightarrow> ULBIPSet list \<Rightarrow> world \<Rightarrow> (panic + unit) \<times> world" where
  "releaseEIPs env c [] w = (Inr (), w)"
| "releaseEIPs env c (ipSet # rest) w =
     (let p2 = zero_ReleaseEIPParam
                 \<lparr>ReleaseEIPParam.Region := Cloud.Region c,
                  ReleaseEIPParam.EIPID := ULBIPSet.EIPID ipSet\<rparr>
      in case ReleaseEIP env (Cloud.UClient c) p2 w of
           ((r2, Some err), w') \<Rightarrow> releaseEIPs env c rest (glogError (LogError err) w')
         | ((None, None), w') \<Rightarrow> (Inl NilDereference, w')
         | ((Some r2, None), w') \<Rightarrow>
             releaseEIPs env c rest
               (if ReturnStatus.RetCode r2 \<noteq> 0
                then glogError (LogMessage (ReturnStatus.Message r2)) w' else w'))"

definition deleteLoadBalancer ::
  "'b env \<Rightarrow> Cloud \<Rightarrow> string \<Rightarrow> world \<Rightarrow> (panic + error option) \<times> world" where
  "deleteLoadBalancer env c name w =
     (case describeLoadBalancer env c name w of
        (Inl pn, w1) \<Rightarrow> (Inl pn, w1)
      | (Inr (ulbSet, err), w1) \<Rightarrow>
          (if err \<noteq> None \<and> err = Some ULBNotFound then (Inr None, w1)
           else
             (case ulbSet of
                None \<Rightarrow> (Inl NilDereference, w1)
              | Some ulb \<Rightarrow>
                  (let p = zero_DeleteULBParam
                             \<lparr>DeleteULBParam.Region := Cloud.Region c,
                              DeleteULBParam.ProjectID := Cloud.ProjectID c,
                              DeleteULBParam.ULBID := ULBSet.ULBID ulb\<rparr>
                   in (case DeleteULB env (Cloud.UClient c) p w1 of
                         ((r, err), w2) \<Rightarrow>
                           (let w3 = (case err of
                                        Some e \<Rightarrow> glogError (LogError e) w2
                                      | None \<Rightarrow> w2)
                            in (case r of
                                  None \<Rightarrow> (Inl NilDereference, w3)
                                | Some rs \<Rightarrow>
                                    (let w4 = (if ReturnStatus.RetCode rs \<noteq> 0
                                               then glogError
                                                      (LogMessage (ReturnStatus.Message rs)) w3
                                               else w3)
                                     in (case releaseEIPs env c (ULBSet.IPSet ulb) w4 of
                                           (Inl pn, w5) \<Rightarrow> (Inl pn, w5)
                                         | (Inr u, w5) \<Rightarrow> (Inr None, w5))))))))))"

definition EnsureLoadBalancerDeleted ::
  "'b env \<Rightarrow> Cloud \<Rightarrow> string \<Rightarrow> Service \<Rightarrow> world \<Rightarrow> (panic + error option) \<times> world" where
  "EnsureLoadBalancerDeleted env c clusterName service w =
     (let loadBalancerName = GetLoadBalancerName env service
      in deleteLoadBalancer env c loadBalancerName w)"

text \<open>
  \<^verbatim>\<open>map[string]bool\<close> filled with \<^verbatim>\<open>m[x] = true\<close> for every \<open>x\<close> of a slice
  (\<^verbatim>\<open>nn\<close> in \<^verbatim>\<open>getUHostIDs\<close>, \<^verbatim>\<open>m1\<close> in \<^verbatim>\<open>UpdateLoadBalancer\<close>).
\<close>

definition boolMap :: "string list \<Rightarrow> (string, bool) fmap" where
  "boolMap xs = fold (\<lambda>x m. fmupd x True m) xs fmempty"

text \<open>
  \<^verbatim>\<open>m2\<close> of \<^verbatim>\<open>UpdateLoadBalancer\<close>: \<^verbatim>\<open>m2[backend.ResourceID] = backend.BackendID\<close>
  for every backend of the first virtual server, a later entry replacing an earlier one
  with the same resource id.
\<close>

definition backendMap :: "ULBBackendSet list \<Rightarrow> (string, string) fmap" where
  "backendMap bs =
     fold (\<lambda>backend m.
             fmupd (ULBBackendSet.ResourceID backend) (ULBBackendSet.BackendID backend) m)
       bs fmempty"

definition getUHostIDs ::
  "'b env \<Rightarrow> Cloud \<Rightarrow> string list \<Rightarrow> world \<Rightarrow> (panic + string list \<times> error option) \<times> world" where
  "getUHostIDs env c nodeNames w =
     (let p = zero_DescribeUHostInstanceParam
                \<lparr>DescribeUHostInstanceParam.Region := Cloud.Region c,
                 DescribeUHostInstanceParam.ProjectID := Cloud.ProjectID c,
                 DescribeUHostInstanceParam.Limit := 100\<rparr>
      in case DescribeUHostInstance env (Cloud.UClient c) p w of
           ((r, Some err), w') \<Rightarrow> (Inr ([], Some err), w')
         | ((None, None), w') \<Rightarrow> (Inl NilDereference, w')
         | ((Some r, None), w') \<Rightarrow>
             if ReturnStatus.RetCode r \<noteq> 0
             then (Inr ([], Some (ErrorsNew (ReturnStatus.Message r))), w')
             else
               let nn = boolMap nodeNames
               in (Inr (concat (map (\<lambda>host.
                                  map (\<lambda>ip. UHostInstanceSet.UHostID host)
                                    (filter (\<lambda>ip. UHostIPSet.IP ip |\<in>| fmdom nn)
                                       (UHostInstanceSet.IPSet host)))
                                (DescribeUHostInstanceResponse.UHostSet r)), None), w'))"

text \<open>
  The two loops of \<^verbatim>\<open>UpdateLoadBalancer\<close>.  The first ranges over \<^verbatim>\<open>m2\<close> (resource
  id to backend id of the bound backends) and releases what is not in \<^verbatim>\<open>m1\<close> (the
  desired hosts); the second ranges over \<^verbatim>\<open>m1\<close> and allocates what is not in
  \<^verbatim>\<open>m2\<close>.  Either returns at the first call that fails.
\<close>

fun releaseBackends ::
  "'b env \<Rightarrow> Cloud \<Rightarrow> string \<Rightarrow> (string, bool) fmap \<Rightarrow> (string \<times> string) list \<Rightarrow> world
     \<Rightarrow> (panic + error option) \<times> world" where
  "releaseBackends env c ulbID m1 [] w = (Inr None, w)"
| "releaseBackends env c ulbID m1 ((host, backendID) # rest) w =
     (if host |\<in>| fmdom m1 then releaseBackends env c ulbID m1 rest w
      else
        let p = zero_ReleaseBackendParam
                  \<lparr>ReleaseBackendParam.Region := Cloud.Region c,
                   ReleaseBackendParam.ProjectID := Cloud.ProjectID c,
                   ReleaseBackendParam.ULBID := ulbID,
                   ReleaseBackendParam.BackendID := backendID\<rparr>
        in case ReleaseBackend env (Cloud.UClient c) p w of
             ((r, Some err), w') \<Rightarrow> (Inr (Some err), w')
           | ((None, None), w') \<Rightarrow> (Inl NilDereference, w')
           | ((Some r, None), w') \<Rightarrow>
               if ReturnStatus.RetCode r \<noteq> 0
               then (Inr (Some (ErrorsNew (ReturnStatus.Message r))), w')
               else releaseBackends env c ulbID m1 rest w')"

fun allocateBackends ::
  "'b env \<Rightarrow> Cloud \<Rightarrow> string \<Rightarrow> string \<Rightarrow> int \<Rightarrow> (string, string) fmap \<Rightarrow> string list \<Rightarrow> world
     \<Rightarrow> (panic + error option) \<times> world" where
  "allocateBackends env c ulbID vserverID port m2 [] w = (Inr None, w)"
| "allocateBackends env c ulbID vserverID port m2 (host # rest) w =
     (if host |\<in>| fmdom m2 then allocateBackends env c ulbID vserverID port m2 rest w
      else
        let p = zero_AllocateBackendParam
                  \<lparr>AllocateBackendParam.Region := Cloud.Region c,
                   AllocateBackendParam.ProjectID := Cloud.ProjectID c,
                   AllocateBackendParam.ULBID := ulbID,
                   AllocateBackendParam.VServerID := vserverID,
                   AllocateBackendParam.ResourceType := ''UHost'',
                   AllocateBackendParam.ResourceID := host,
                   AllocateBackendParam.Port := port,
                   AllocateBackendParam.Enabled := 1\<rparr>
        in case AllocateBackend env (Cloud.UClient c) p w of
             ((r, Some err), w') \<Rightarrow> (Inr (Some err), w')
           | ((None, None), w') \<Rightarrow> (Inl NilDereference, w')
           | ((Some r, None), w') \<Rightarrow>
               if ReturnStatus.RetCode r \<noteq> 0
               then (Inr (Some (ErrorsNew (ReturnStatus.Message r))), w')
               else allocateBackends env c ulbID vserverID port m2 rest w')"

definition UpdateLoadBalancer ::
  "'b env \<Rightarrow> Cloud \<Rightarrow> string \<Rightarrow> Service \<Rightarrow> string list \<Rightarrow> world
     \<Rightarrow> (panic + error option) \<times> world" where
  "UpdateLoadBalancer env c clusterName service nodeNames w =
     (let loadBalancerName = GetLoadBalancerName env service
      in (case describeLoadBalancer env c loadBalancerName w of
            (Inl pn, w1) \<Rightarrow> (Inl pn, w1)
          | (Inr (ulbSet, Some err), w1) \<Rightarrow> (Inr (Some err), w1)
          | (Inr (ulbSet, None), w1) \<Rightarrow>
              (case ServiceSpec.Ports (Service.Spec service) of
                 [] \<Rightarrow> (Inr (Some (ErrorsNew ''no port found for serivce'')), w1)
               | sp # ports \<Rightarrow>
                   (let port = sint (ServicePort.Port sp)
                    in (case getUHostIDs env c nodeNames w1 of
                          (Inl pn, w2) \<Rightarrow> (Inl pn, w2)
                        | (Inr (uHostIDs, Some err), w2) \<Rightarrow> (Inr (Some err), w2)
                        | (Inr (uHostIDs, None), w2) \<Rightarrow>
                            (case ulbSet of
                               None \<Rightarrow> (Inl NilDereference, w2)
                             | Some ulb \<Rightarrow>
                                 (case ULBSet.VServerSet ulb of
                                    [] \<Rightarrow> (Inl IndexOutOfRange, w2)
                                  | vs # vss \<Rightarrow>
                                      (let ulbID = ULBSet.ULBID ulb;
                                           vserverID = ULBVServerSet.VserverID vs;
                                           m1 = boolMap uHostIDs;
                                           m2 = backendMap (ULBVServerSet.VServerSet vs)
                                       in (case releaseBackends env c ulbID m1
                                                  (rangeMap env m2) w2 of
                                             (Inr None, w3) \<Rightarrow>
                                               allocateBackends env c ulbID vserverID port m2
                                                 (map fst (rangeMap env m1)) w3
                                           | (res, w3) \<Rightarrow> (res, w3))))))))))"

section \<open>Notions used in the statements\<close>

text \<open>
  \<open>passesThrough env url decode method\<close>: in every world, \<open>method\<close> fetches \<open>url\<close>
  once and never again, hands a transport failure of that fetch back as its error with
  a nil response, and hands back a response the decoder accepts with a nil error,
  whatever its \<^verbatim>\<open>RetCode\<close>.
\<close>

definition passesThrough ::
  "'b env \<Rightarrow> string \<Rightarrow> ('b \<Rightarrow> 'r \<times> string option)
     \<Rightarrow> (world \<Rightarrow> ('r option \<times> error option) \<times> world) \<Rightarrow> bool" where
  "passesThrough env url decode method \<longleftrightarrow>
     (\<forall>w. (\<forall>msg. httpGet env (requests w) url = Inl msg \<longrightarrow>
                 method w = ((None, Some (HttpError msg)), w\<lparr>requests := requests w @ [url]\<rparr>))
        \<and> (\<forall>body r. httpGet env (requests w) url = Inr body \<and> decode body = (r, None) \<longrightarrow>
                 method w = ((Some r, None), w\<lparr>requests := requests w @ [url]\<rparr>)))"

text \<open>
  \<open>keyedByClient c action flds override method\<close>: the one URL \<open>method\<close> fetches is
  built from the parameter record with \<^verbatim>\<open>Action\<close>, \<^verbatim>\<open>PublicKey\<close> and
  \<^verbatim>\<open>PrivateKey\<close> set to \<open>action\<close> and the keys of the client \<open>c\<close>; the parameter
  map that is signed carries these three values; and what the caller had put in the
  three fields (\<open>override p a k s\<close> puts \<open>a\<close>, \<open>k\<close>, \<open>s\<close> there) changes nothing.
\<close>

definition keyedByClient ::
  "UClient \<Rightarrow> string \<Rightarrow> ('p \<Rightarrow> (string \<times> fvalue) list)
     \<Rightarrow> ('p \<Rightarrow> string \<Rightarrow> string \<Rightarrow> string \<Rightarrow> 'p) \<Rightarrow> ('p \<Rightarrow> world \<Rightarrow> 'x \<times> world) \<Rightarrow> bool" where
  "keyedByClient c action flds override method \<longleftrightarrow>
     (\<forall>p w a k s.
        (let sent = toParams (flds (override p action (UClient.PublicKey c) (UClient.PrivateKey c)))
         in requests (snd (method p w)) =
              requests w @ [UClient.BaseURL c @ ''/?'' @ toQueryString sent]
          \<and> fmlookup sent ''Action'' = Some action
          \<and> fmlookup sent ''PublicKey'' = Some (UClient.PublicKey c)
          \<and> fmlookup sent ''PrivateKey'' = Some (UClient.PrivateKey c))
      \<and> method (override p a k s) w = method p w)"

text \<open>
  The URLs of the requests the adapter issues: the parameter record it builds, after the
  client's \<^verbatim>\<open>setKey\<close>, signed and appended to the base URL.
\<close>

definition describeULB_URL :: "Cloud \<Rightarrow> string" where
  "describeULB_URL c =
     GetQueryURL (Cloud.UClient c)
       (PDescribeULB (setKey_DescribeULBParam
          (zero_DescribeULBParam
             \<lparr>DescribeULBParam.Region := Cloud.Region c,
              DescribeULBParam.ProjectID := Cloud.ProjectID c,
              DescribeULBParam.Limit := 100\<rparr>)
          (UClient.PublicKey (Cloud.UClient c)) (UClient.PrivateKey (Cloud.UClient c))))"

definition describeUHostInstance_URL :: "Cloud \<Rightarrow> string" where
  "describeUHostInstance_URL c =
     GetQueryURL (Cloud.UClient c)
       (PDescribeUHostInstance (setKey_DescribeUHostInstanceParam
          (zero_DescribeUHostInstanceParam
             \<lparr>DescribeUHostInstanceParam.Region := Cloud.Region c,
              DescribeUHostInstanceParam.ProjectID := Cloud.ProjectID c,
              DescribeUHostInstanceParam.Limit := 100\<rparr>)
          (UClient.PublicKey (Cloud.UClient c)) (UClient.PrivateKey (Cloud.UClient c))))"

definition deleteULB_URL :: "Cloud \<Rightarrow> string \<Rightarrow> string" where
  "deleteULB_URL c ulbID =
     GetQueryURL (Cloud.UClient c)
       (PDeleteULB (setKey_DeleteULBParam
          (zero_DeleteULBParam
             \<lparr>DeleteULBParam.Region := Cloud.Region c,
              DeleteULBParam.ProjectID := Cloud.ProjectID c,
              DeleteULBParam.ULBID := ulbID\<rparr>)
          (UClient.PublicKey (Cloud.UClient c)) (UClient.PrivateKey (Cloud.UClient c))))"

definition releaseURL :: "Cloud \<Rightarrow> string \<Rightarrow> string \<Rightarrow> string" where
  "releaseURL c ulbID backendID =
     GetQueryURL (Cloud.UClient c)
       (PReleaseBackend (setKey_ReleaseBackendParam
          (zero_ReleaseBackendParam
             \<lparr>ReleaseBackendParam.Region := Cloud.Region c,
              ReleaseBackendParam.ProjectID := Cloud.ProjectID c,
              ReleaseBackendParam.ULBID := ulbID,
              ReleaseBackendParam.BackendID := backendID\<rparr>)
          (UClient.PublicKey (Cloud.UClient c)) (UClient.PrivateKey (Cloud.UClient c))))"

definition allocateURL :: "Cloud \<Rightarrow> string \<Rightarrow> string \<Rightarrow> int \<Rightarrow> string \<Rightarrow> string" where
  "allocateURL c ulbID vserverID port host =
     GetQueryURL (Cloud.UClient c)
       (PAllocateBackend (setKey_AllocateBackendParam
          (zero_AllocateBackendParam
             \<lparr>AllocateBackendParam.Region := Cloud.Region c,
              AllocateBackendParam.ProjectID := Cloud.ProjectID c,
              AllocateBackendParam.ULBID := ulbID,
              AllocateBackendParam.VServerID := vserverID,
              AllocateBackendParam.ResourceType := ''UHost'',
              AllocateBackendParam.ResourceID := host,
              AllocateBackendParam.Port := port,
              AllocateBackendParam.Enabled := 1\<rparr>)
          (UClient.PublicKey (Cloud.UClient c)) (UClient.PrivateKey (Cloud.UClient c))))"

text \<open>
  What the adapter makes of one call.  \<open>bodyError decode body\<close> is the error it finds in a
  response body: the decoder's error, or \<^verbatim>\<open>errors.New(r.Message)\<close> when the decoded
  \<^verbatim>\<open>RetCode\<close> is not 0; \<open>None\<close> when the call has succeeded.  A call is a URL with
  the check of its body, and \<open>callError env h call\<close> is the error of fetching it after the
  requests \<open>h\<close>: the transport error of the fetch, or the error found in the body.
\<close>

definition bodyError ::
  "('b \<Rightarrow> 'r ReturnStatus_scheme \<times> string option) \<Rightarrow> 'b \<Rightarrow> error option" where
  "bodyError decode body =
     (case decode body of
        (r, Some e) \<Rightarrow> Some (JsonError e)
      | (r, None) \<Rightarrow>
          if ReturnStatus.RetCode r \<noteq> 0 then Some (ErrorsNew (ReturnStatus.Message r)) else None)"

definition callError ::
  "'b env \<Rightarrow> string list \<Rightarrow> string \<times> ('b \<Rightarrow> error option) \<Rightarrow> error option" where
  "callError env h call =
     (case httpGet env h (fst call) of
        Inl msg \<Rightarrow> Some (HttpError msg)
      | Inr body \<Rightarrow> snd call body)"

text \<open>
  The calls of a membership update: one \<^verbatim>\<open>ReleaseBackend\<close> call for each pair of
  \<open>released\<close> (resource id and backend id), then one \<^verbatim>\<open>AllocateBackend\<close> call for
  each host id of \<open>allocated\<close>.
\<close>

definition updatePlan ::
  "'b env \<Rightarrow> Cloud \<Rightarrow> string \<Rightarrow> string \<Rightarrow> int \<Rightarrow> (string \<times> string) list \<Rightarrow> string list
     \<Rightarrow> (string \<times> ('b \<Rightarrow> error option)) list" where
  "updatePlan env c ulbID vserverID port released allocated =
     map (\<lambda>(host, backendID). (releaseURL c ulbID backendID, bodyError (decodeStatus env)))
       released
     @ map (\<lambda>host. (allocateURL c ulbID vserverID port host,
                     bodyError (decodeAllocateBackend env)))
         allocated"

text \<open>
  Issuing the calls of a list in order, up to and including the first that fails.
\<close>

fun runPlan ::
  "'b env \<Rightarrow> (string \<times> ('b \<Rightarrow> error option)) list \<Rightarrow> world \<Rightarrow> error option \<times> world" where
  "runPlan env [] w = (None, w)"
| "runPlan env (call # rest) w =
     (case callError env (requests w) call of
        Some e \<Rightarrow> (Some e, w\<lparr>requests := requests w @ [fst call]\<rparr>)
      | None \<Rightarrow> runPlan env rest (w\<lparr>requests := requests w @ [fst call]\<rparr>))"

section \<open>Example inputs\<close>

text \<open>
  Concrete values at which the theorems below are instantiated.  In \<open>example_env\<close> a
  response body is the \<^verbatim>\<open>RetCode\<close> it carries; the load balancers and hosts the
  endpoint lists are given, range loops visit keys in ascending order, and every service
  has the load balancer name \<^verbatim>\<open>a5f3c9e0\<close>.
\<close>

definition example_DescribeULBParam :: DescribeULBParam where
  "example_DescribeULBParam =
     zero_DescribeULBParam
       \<lparr>DescribeULBParam.Action := ''DescribeULB'',
        DescribeULBParam.PrivateKey := ''secret'',
        DescribeULBParam.Region := ''cn-bj2'',
        DescribeULBParam.Limit := 100\<rparr>"

definition example_AllocateBackendParam :: AllocateBackendParam where
  "example_AllocateBackendParam =
     zero_AllocateBackendParam
       \<lparr>AllocateBackendParam.Action := ''AllocateBackend'',
        AllocateBackendParam.PrivateKey := ''secret'',
        AllocateBackendParam.Region := ''cn-bj2'',
        AllocateBackendParam.ULBID := ''ulb-1'',
        AllocateBackendParam.VServerID := ''vs-1'',
        AllocateBackendParam.ResourceType := ''UHost'',
        AllocateBackendParam.ResourceID := ''uhost-1'',
        AllocateBackendParam.Port := 80,
        AllocateBackendParam.Enabled := 0\<rparr>"

definition example_client :: UClient where
  "example_client = New ''https://api.ucloud.cn'' ''pub'' ''secret''"

definition example_cloud :: Cloud where
  "example_cloud =
     \<lparr>Cloud.UClient = example_client, Cloud.Region = ''cn-bj2'', Cloud.Zone = ''cn-bj2-04'',
      Cloud.ProjectID = ''org-1'', Cloud.selfInstance = None\<rparr>"

definition example_world :: world where
  "example_world = \<lparr>requests = [], errlog = []\<rparr>"

definition example_service :: Service where
  "example_service = \<lparr>Service.Spec = \<lparr>ServiceSpec.Ports = [\<lparr>ServicePort.Port = 4000\<rparr>]\<rparr>\<rparr>"

definition example_status :: "int \<Rightarrow> ReturnStatus" where
  "example_status code =
     \<lparr>ReturnStatus.RetCode = code, ReturnStatus.Action = [],
      ReturnStatus.Message = (if code = 0 then [] else ''remote failure'')\<rparr>"

definition example_backend :: "string \<Rightarrow> string \<Rightarrow> ULBBackendSet" where
  "example_backend host backendID =
     \<lparr>ULBBackendSet.BackendID = backendID, ULBBackendSet.ResourceType = ''UHost'',
      ULBBackendSet.ResourceID = host, ULBBackendSet.ResourceName = [],
      ULBBackendSet.PrivateIP = [], ULBBackendSet.Port = 30080, ULBBackendSet.Enabled = 1,
      ULBBackendSet.Status = 0\<rparr>"

definition example_ULBSet :: "string \<Rightarrow> ULBIPSet list \<Rightarrow> ULBBackendSet list \<Rightarrow> ULBSet" where
  "example_ULBSet name ips backends =
     \<lparr>ULBSet.ULBID = ''ulb-1'', ULBSet.ULBName = name, ULBSet.Name = name, ULBSet.Tag = [],
      ULBSet.Remark = [], ULBSet.BandwidthType = 0, ULBSet.Bandwidth = 0,
      ULBSet.CreateTime = 0, ULBSet.ExpireTime = 0, ULBSet.IPSet = ips,
      ULBSet.VServerSet =
        [\<lparr>ULBVServerSet.VserverID = ''vserver-1'', ULBVServerSet.VServerName = ''tidb-server'',
          ULBVServerSet.Protocol = ''TCP'', ULBVServerSet.FrontendPort = 4000,
          ULBVServerSet.Method = [], ULBVServerSet.PersistenceType = [],
          ULBVServerSet.PersistenceInfo = [], ULBVServerSet.ClientTimeout = 60,
          ULBVServerSet.Status = 0, ULBVServerSet.SSLSet = [],
          ULBVServerSet.VServerSet = backends\<rparr>],
      ULBSet.ULBType = ''OuterMode''\<rparr>"

definition example_host :: "string \<Rightarrow> string \<Rightarrow> UHostInstanceSet" where
  "example_host hostID ip =
     \<lparr>UHostInstanceSet.UHostID = hostID, UHostInstanceSet.UHostType = [],
      UHostInstanceSet.Zone = [], UHostInstanceSet.StorageType = [],
      UHostInstanceSet.ImageID = [], UHostInstanceSet.BasicImageID = [],
      UHostInstanceSet.BasicImageName = [], UHostInstanceSet.Tag = [],
      UHostInstanceSet.Remark = [], UHostInstanceSet.Name = [], UHostInstanceSet.State = [],
      UHostInstanceSet.CreateTime = 0, UHostInstanceSet.ChargeType = [],
      UHostInstanceSet.ExpireTime = 0, UHostInstanceSet.CPU = 0, UHostInstanceSet.Memory = 0,
      UHostInstanceSet.AutoRenew = [], UHostInstanceSet.DiskSet = [],
      UHostInstanceSet.IPSet =
        [\<lparr>UHostIPSet.Type = ''Private'', UHostIPSet.IPID = [], UHostIPSet.IP = ip,
          UHostIPSet.Bandwidth = 0\<rparr>],
      UHostInstanceSet.NetCapability = [], UHostInstanceSet.NetworkState = [],
      UHostInstanceSet.TimemachineFeature = [], UHostInstanceSet.HotplugFeature = False\<rparr>"

definition example_env ::
  "(string list \<Rightarrow> string \<Rightarrow> string + int) \<Rightarrow> ULBSet list \<Rightarrow> UHostInstanceSet list \<Rightarrow> int env" where
  "example_env net ulbs hosts =
     \<lparr>httpGet = net,
      decodeStatus = (\<lambda>code. (example_status code, None)),
      decodeDescribeULB = (\<lambda>code.
        (\<lparr>ReturnStatus.RetCode = code, ReturnStatus.Action = [],
          ReturnStatus.Message = (if code = 0 then [] else ''remote failure''),
          DescribeULBResponse.TotalCount = int (length ulbs),
          DescribeULBResponse.DataSet = ulbs\<rparr>, None)),
      decodeCreateULB = (\<lambda>code.
        (\<lparr>ReturnStatus.RetCode = code, ReturnStatus.Action = [],
          ReturnStatus.Message = (if code = 0 then [] else ''remote failure''),
          CreateULBResponse.ULBID = ''ulb-1''\<rparr>, None)),
      decodeCreateVServer = (\<lambda>code.
        (\<lparr>ReturnStatus.RetCode = code, ReturnStatus.Action = [],
          ReturnStatus.Message = (if code = 0 then [] else ''remote failure''),
          CreateVServerResponse.VServerID = ''vserver-1''\<rparr>, None)),
      decodeAllocateBackend = (\<lambda>code.
        (\<lparr>ReturnStatus.RetCode = code, ReturnStatus.Action = [],
          ReturnStatus.Message = (if code = 0 then [] else ''remote failure''),
          AllocateBackendResponse.BackendID = ''backend-9''\<rparr>, None)),
      decodeAllocateEIP = (\<lambda>code.
        (\<lparr>ReturnStatus.RetCode = code, ReturnStatus.Action = [],
          ReturnStatus.Message = (if code = 0 then [] else ''remote failure''),
          AllocateEIPResponse.EIPSet = []\<rparr>, None)),
      decodeDescribeUHostInstance = (\<lambda>code.
        (\<lparr>ReturnStatus.RetCode = code, ReturnStatus.Action = [],
          ReturnStatus.Message = (if code = 0 then [] else ''remote failure''),
          DescribeUHostInstanceResponse.TotalCount = int (length hosts),
          DescribeUHostInstanceResponse.UHostSet = hosts\<rparr>, None)),
      GetLoadBalancerName = (\<lambda>service. ''a5f3c9e0''),
      rangeSeed = (\<lambda>ks. [])\<rparr>"

definition example_bound :: ULBSet where
  "example_bound =
     example_ULBSet ''a5f3c9e0'' []
       [example_backend ''uhost-a'' ''backend-a'', example_backend ''uhost-b'' ''backend-b'']"

definition example_hosts :: "UHostInstanceSet list" where
  "example_hosts = [example_host ''uhost-b'' ''10.0.0.2'', example_host ''uhost-c'' ''10.0.0.3'']"

text \<open>The definitions that unfold the example inputs.\<close>

lemmas example_defs =
  example_client_def New_def example_cloud_def example_world_def example_service_def
  example_status_def example_backend_def example_ULBSet_def example_host_def example_env_def

section \<open>Properties of the signed request builder\<close>

lemma keys_filter: "keys p = filter (\<lambda>k. index p k \<noteq> []) (sorted_list_of_fset (fmdom p))"
  unfolding keys_def
  by (rule sorted_sort_id) (simp add: sorted_list_of_fset.rep_eq sorted_wrt_filter)

lemma sorted_keys: "sorted_wrt (<) (keys p)"
  unfolding keys_filter
  by (simp add: sorted_list_of_fset.rep_eq sorted_wrt_filter strict_sorted_iff[symmetric])

lemma set_keys: "set (keys p) = {k. k |\<in>| fmdom p \<and> index p k \<noteq> []}"
  unfolding keys_filter by auto

lemma keys_cong:
  assumes "{k. k |\<in>| fmdom p \<and> index p k \<noteq> []} = {k. k |\<in>| fmdom q \<and> index q k \<noteq> []}"
  shows "keys p = keys q"
proof (rule sorted_distinct_set_unique)
  show "sorted (keys p)" "sorted (keys q)" "distinct (keys p)" "distinct (keys q)"
    using sorted_keys[of p] sorted_keys[of q] by (simp_all add: strict_sorted_iff)
  show "set (keys p) = set (keys q)" using assms by (simp add: set_keys)
qed

text \<open>
  The order in which the first loop of \<^verbatim>\<open>toQueryString\<close> meets the keys of the map
  does not matter: sorting any enumeration of them gives \<open>keys\<close>.
\<close>

lemma keys_any_order:
  assumes "distinct ks" and "set ks = fset (fmdom p)"
  shows "sort (filter (\<lambda>k. index p k \<noteq> []) ks) = keys p"
proof (rule sorted_distinct_set_unique)
  show "sorted (sort (filter (\<lambda>k. index p k \<noteq> []) ks))" by simp
  show "distinct (sort (filter (\<lambda>k. index p k \<noteq> []) ks))" using assms(1) by simp
  show "sorted (keys p)" "distinct (keys p)"
    using sorted_keys[of p] by (simp_all add: strict_sorted_iff)
  show "set (sort (filter (\<lambda>k. index p k \<noteq> []) ks)) = set (keys p)"
    using assms(2) by (auto simp: set_keys)
qed

lemma foldl_skip_append:
  "foldl (\<lambda>s k. if ex k then s else s @ f k) acc ks = acc @ concat (map f (filter (\<lambda>k. \<not> ex k) ks))"
  by (induction ks arbitrary: acc) simp_all

lemma signingInput_concat:
  "signingInput p =
     concat (map (\<lambda>k. k @ index p k)
       (filter (\<lambda>k. \<not> (k = ''PrivateKey'' \<or> k = ''Signature'')) (keys p)))
     @ index p ''PrivateKey''"
  unfolding signingInput_def by (simp add: foldl_skip_append)

lemma toQueryString_concat:
  "toQueryString p =
     concat (map (\<lambda>k. ''&'' @ Encode1 k (index p k))
       (filter (\<lambda>k. \<not> (k = ''PrivateKey'' \<or> k = ''Signature'')) (keys p)))
     @ ''&'' @ Encode1 ''Signature'' (sig p)"
  unfolding toQueryString_def
  using foldl_skip_append[of "\<lambda>k. k = ''PrivateKey'' \<or> k = ''Signature''"
      "\<lambda>k. ''&'' @ Encode1 k (index p k)" "[]" "keys p"]
  by simp

lemma fmlookup_fold_fmupd:
  "fmlookup (fold (\<lambda>(tag, val) params. fmupd tag (g val) params) fs m) k =
     (case map_of (rev fs) k of Some v \<Rightarrow> Some (g v) | None \<Rightarrow> fmlookup m k)"
  by (induction fs arbitrary: m) (auto split: option.splits)

lemma fmlookup_toParams:
  "fmlookup (toParams fs) k = map_option Sprintf_v (map_of (rev fs) k)"
  unfolding toParams_def by (simp add: fmlookup_fold_fmupd split: option.splits)

lemma fmlookup_toParams_distinct:
  "distinct (map fst fs) \<Longrightarrow> (t, v) \<in> set fs \<Longrightarrow> fmlookup (toParams fs) t = Some (Sprintf_v v)"
  by (simp add: fmlookup_toParams map_of_is_SomeI rev_map[symmetric])

lemma map_of_remove:
  "map_of (filter (\<lambda>(t', v). t' \<noteq> t) xs) k = (if k = t then None else map_of xs k)"
  by (induction xs) auto

lemma toParams_remove:
  "toParams (filter (\<lambda>(t', v). t' \<noteq> t) fs) = fmdrop t (toParams fs)"
  by (rule fmap_ext) (simp add: fmlookup_toParams rev_filter map_of_remove)

lemma index_fmdrop: "index p t = [] \<Longrightarrow> index (fmdrop t p) k = index p k"
  by (auto simp: index_def split: option.splits)

lemma keys_fmdrop: "index p t = [] \<Longrightarrow> keys (fmdrop t p) = keys p"
  by (rule keys_cong) (auto simp: index_fmdrop)

lemma signing_fmdrop:
  assumes "index p t = []"
  shows "signingInput (fmdrop t p) = signingInput p" "toQueryString (fmdrop t p) = toQueryString p"
proof -
  have i: "index (fmdrop t p) = index p" using assms by (auto simp: index_fmdrop)
  show "signingInput (fmdrop t p) = signingInput p"
    by (simp add: signingInput_concat keys_fmdrop[OF assms] i)
  then show "toQueryString (fmdrop t p) = toQueryString p"
    by (simp add: toQueryString_concat sig_def keys_fmdrop[OF assms] i)
qed


lemma FormatUint_0: "FormatUint 0 = ''0''" by simp

lemma Sprintf_v_zero: "Sprintf_v (IntV 0) = ''0''" by (simp add: Sprintf_v_def)

lemma concat_map_split:
  assumes "t \<in> set ks"
  shows "\<exists>a b. concat (map f ks) @ c = a @ f t @ b"
proof -
  from assms obtain ys zs where "ks = ys @ t # zs" by (auto dest: split_list)
  then have "concat (map f ks) @ c = concat (map f ys) @ f t @ (concat (map f zs) @ c)" by simp
  then show ?thesis by blast
qed

lemma length_sha1_Sum: "length (sha1_Sum m) = 20"
  unfolding sha1_Sum_def Let_def by (simp add: putUint32_def split: prod.splits)

lemma length_Sprintf_x: "length (Sprintf_x bs) = 2 * length bs"
  unfolding Sprintf_x_def by (induction bs) simp_all

lemma length_sha1_hex: "length (sha1_hex s) = 40"
  by (simp add: sha1_hex_def length_Sprintf_x length_sha1_Sum)

lemma length_ldigits: "length ldigits = 16"
  by (simp add: ldigits_def)

lemma ldigits_nth: "i < 16 \<Longrightarrow> ldigits ! i \<in> set ldigits"
  by (rule nth_mem) (simp add: length_ldigits)

lemma byte_div16: "unat (b :: byte) div 16 < 16"
proof -
  have "unat b < 256" using unsigned_less[of b, where 'a = nat] by simp
  then show ?thesis by simp
qed

lemma set_Sprintf_x: "set (Sprintf_x bs) \<subseteq> set ldigits"
  unfolding Sprintf_x_def using ldigits_nth byte_div16 by (induction bs) simp_all


lemma ldigits_unescaped: "c \<in> set ldigits \<Longrightarrow> c \<noteq> CHR '' '' \<and> \<not> shouldEscape c"
proof -
  have "list_all (\<lambda>c. c \<noteq> CHR '' '' \<and> \<not> shouldEscape c) ldigits" by code_simp
  then show "c \<in> set ldigits \<Longrightarrow> c \<noteq> CHR '' '' \<and> \<not> shouldEscape c"
    by (simp add: list_all_iff)
qed

lemma QueryEscape_id:
  "(\<And>c. c \<in> set s \<Longrightarrow> c \<noteq> CHR '' '' \<and> \<not> shouldEscape c) \<Longrightarrow> QueryEscape s = s"
  unfolding QueryEscape_def by (induction s) simp_all

lemma QueryEscape_sha1_hex: "QueryEscape (sha1_hex s) = sha1_hex s"
  by (rule QueryEscape_id) (use set_Sprintf_x ldigits_unescaped in \<open>auto simp: sha1_hex_def\<close>)

lemma QueryEscape_Signature: "QueryEscape ''Signature'' = ''Signature''"
  by code_simp

lemma Encode1_Signature_hex: "Encode1 ''Signature'' (sha1_hex s) = ''Signature='' @ sha1_hex s"
  unfolding Encode1_def QueryEscape_sha1_hex QueryEscape_Signature by simp

lemma Encode1_Signature: "Encode1 ''Signature'' (sig p) = ''Signature='' @ sig p"
  unfolding sig_def by (rule Encode1_Signature_hex)

lemma toQueryString_Signature:
  "toQueryString p =
     concat (map (\<lambda>k. ''&'' @ Encode1 k (index p k))
       (filter (\<lambda>k. \<not> (k = ''PrivateKey'' \<or> k = ''Signature'')) (keys p)))
     @ ''&Signature='' @ sig p"
  by (simp add: toQueryString_concat Encode1_Signature)

text \<open>
  Claim C3.  For every parameter map, the signature is the lower-case hexadecimal SHA-1
  digest (40 characters) of the concatenation of name followed by value over the
  included fields (those with a non-empty value) other than \<^verbatim>\<open>PrivateKey\<close> and
  \<^verbatim>\<open>Signature\<close>, taken in strictly ascending byte-wise lexicographic order of name,
  with the value of \<^verbatim>\<open>PrivateKey\<close> appended at the very end; and the query string
  ends with that signature.
\<close>

theorem signature_is_sha1_of_sorted_fields:
  "\<exists>ks. sorted_wrt (<) ks
       \<and> set ks = {k. k |\<in>| fmdom p \<and> index p k \<noteq> [] \<and> k \<noteq> ''PrivateKey'' \<and> k \<noteq> ''Signature''}
       \<and> sig p = Sprintf_x (sha1_Sum (map of_char
                    (concat (map (\<lambda>k. k @ index p k) ks) @ index p ''PrivateKey'')))
       \<and> length (sig p) = 40
       \<and> set (sig p) \<subseteq> set ''0123456789abcdef''
       \<and> (\<exists>body. toQueryString p = body @ ''&Signature='' @ sig p)"
proof -
  let ?ks = "filter (\<lambda>k. \<not> (k = ''PrivateKey'' \<or> k = ''Signature'')) (keys p)"
  have "sorted_wrt (<) ?ks" by (simp add: sorted_keys sorted_wrt_filter)
  moreover have "set ?ks = {k. k |\<in>| fmdom p \<and> index p k \<noteq> [] \<and> k \<noteq> ''PrivateKey'' \<and> k \<noteq> ''Signature''}"
    by (auto simp: set_keys)
  moreover have "sig p = Sprintf_x (sha1_Sum (map of_char
                    (concat (map (\<lambda>k. k @ index p k) ?ks) @ index p ''PrivateKey'')))"
    by (simp add: sig_def sha1_hex_def signingInput_concat)
  moreover have "length (sig p) = 40" by (simp add: sig_def length_sha1_hex)
  moreover have "set (sig p) \<subseteq> set ''0123456789abcdef''"
    using set_Sprintf_x by (simp add: sig_def sha1_hex_def ldigits_def)
  moreover have "\<exists>body. toQueryString p = body @ ''&Signature='' @ sig p"
    using toQueryString_Signature by blast
  ultimately show ?thesis by blast
qed

text \<open>
  Claim C1, as the code has it.  In a parameter struct (field tags distinct), a field
  whose value is the empty string is left out of the sorted keys, and the signing input
  and the query string are those of the struct without that field.  A field whose value
  is the integer zero is printed as \<^verbatim>\<open>0\<close>, which is not empty: it is among the keys,
  and (unless it is named \<^verbatim>\<open>PrivateKey\<close> or \<^verbatim>\<open>Signature\<close>) its name followed by
  \<^verbatim>\<open>0\<close> stands in the signing input and its pair in the query string.
\<close>

theorem empty_string_dropped_zero_int_kept:
  assumes "distinct (map fst fs)"
  shows "((t, StringV []) \<in> set fs \<longrightarrow>
            t \<notin> set (keys (toParams fs))
          \<and> signingInput (toParams fs) = signingInput (toParams (filter (\<lambda>(t', v). t' \<noteq> t) fs))
          \<and> toQueryString (toParams fs) = toQueryString (toParams (filter (\<lambda>(t', v). t' \<noteq> t) fs)))
       \<and> ((t, IntV 0) \<in> set fs \<longrightarrow>
            t \<in> set (keys (toParams fs)) \<and> index (toParams fs) t = ''0''
          \<and> (t \<noteq> ''PrivateKey'' \<and> t \<noteq> ''Signature'' \<longrightarrow>
               (\<exists>a b. signingInput (toParams fs) = a @ t @ ''0'' @ b)
             \<and> (\<exists>a b. toQueryString (toParams fs) = a @ ''&'' @ Encode1 t ''0'' @ b)))"
proof (intro conjI impI)
  assume e: "(t, StringV []) \<in> set fs"
  then have i: "index (toParams fs) t = []"
    using assms by (simp add: index_def fmlookup_toParams_distinct Sprintf_v_def)
  then show "t \<notin> set (keys (toParams fs))" by (simp add: set_keys)
  show "signingInput (toParams fs) = signingInput (toParams (filter (\<lambda>(t', v). t' \<noteq> t) fs))"
    by (simp add: toParams_remove signing_fmdrop[OF i])
  show "toQueryString (toParams fs) = toQueryString (toParams (filter (\<lambda>(t', v). t' \<noteq> t) fs))"
    by (simp add: toParams_remove signing_fmdrop[OF i])
next
  assume z: "(t, IntV 0) \<in> set fs"
  then have l: "fmlookup (toParams fs) t = Some ''0''"
    using assms by (simp add: fmlookup_toParams_distinct Sprintf_v_zero)
  then show i: "index (toParams fs) t = ''0''" by (simp add: index_def)
  from l show k: "t \<in> set (keys (toParams fs))"
    by (auto simp: set_keys index_def fmdomI)
  assume n: "t \<noteq> ''PrivateKey'' \<and> t \<noteq> ''Signature''"
  with k have m: "t \<in> set (filter (\<lambda>k. \<not> (k = ''PrivateKey'' \<or> k = ''Signature'')) (keys (toParams fs)))"
    by simp
  show "\<exists>a b. signingInput (toParams fs) = a @ t @ ''0'' @ b"
    using concat_map_split[OF m, of "\<lambda>k. k @ index (toParams fs) k" "index (toParams fs) ''PrivateKey''"]
    by (simp add: signingInput_concat i)
  show "\<exists>a b. toQueryString (toParams fs) = a @ ''&'' @ Encode1 t ''0'' @ b"
    using concat_map_split[OF m, of "\<lambda>k. ''&'' @ Encode1 k (index (toParams fs) k)"
        "''&Signature='' @ sig (toParams fs)"]
    by (simp add: toQueryString_Signature i)
qed

text \<open>
  The theorem at a \<^verbatim>\<open>DescribeULBParam\<close> whose \<^verbatim>\<open>PublicKey\<close> is empty and whose
  \<^verbatim>\<open>Offset\<close> is zero.
\<close>

theorem empty_string_dropped_zero_int_kept_witness:
  "distinct (map fst (fields_DescribeULBParam example_DescribeULBParam))
   \<and> (''PublicKey'', StringV []) \<in> set (fields_DescribeULBParam example_DescribeULBParam)
   \<and> (''Offset'', IntV 0) \<in> set (fields_DescribeULBParam example_DescribeULBParam)
   \<and> ''PublicKey'' \<notin> set (keys (toParams (fields_DescribeULBParam example_DescribeULBParam)))
   \<and> signingInput (toParams (fields_DescribeULBParam example_DescribeULBParam)) =
       signingInput (toParams (filter (\<lambda>(t', v). t' \<noteq> ''PublicKey'')
         (fields_DescribeULBParam example_DescribeULBParam)))
   \<and> ''Offset'' \<in> set (keys (toParams (fields_DescribeULBParam example_DescribeULBParam)))
   \<and> (\<exists>a b. signingInput (toParams (fields_DescribeULBParam example_DescribeULBParam)) =
         a @ ''Offset'' @ ''0'' @ b)
   \<and> (\<exists>a b. toQueryString (toParams (fields_DescribeULBParam example_DescribeULBParam)) =
         a @ ''&'' @ Encode1 ''Offset'' ''0'' @ b)"
proof -
  let ?fs = "fields_DescribeULBParam example_DescribeULBParam"
  have d: "distinct (map fst ?fs)"
    and e: "(''PublicKey'', StringV []) \<in> set ?fs"
    and z: "(''Offset'', IntV 0) \<in> set ?fs"
    by (simp_all add: fields_DescribeULBParam_def example_DescribeULBParam_def
        zero_DescribeULBParam_def)
  show ?thesis
    using d e z empty_string_dropped_zero_int_kept[OF d, of "''PublicKey''"]
      empty_string_dropped_zero_int_kept[OF d, of "''Offset''"]
    by simp
qed

lemma example_AllocateBackend_keys:
  "keys (toParams (fields_AllocateBackendParam example_AllocateBackendParam)) =
     [''Action'', ''Enabled'', ''Port'', ''PrivateKey'', ''Region'', ''ResourceId'',
      ''ResourceType'', ''ULBId'', ''VServerId'']"
  by code_simp

lemma example_AllocateBackend_signingInput:
  "signingInput (toParams (fields_AllocateBackendParam example_AllocateBackendParam)) =
     ''ActionAllocateBackendEnabled0Port80Regioncn-bj2ResourceIduhost-1ResourceTypeUHostULBIdulb-1VServerIdvs-1secret''"
  by code_simp

lemma example_AllocateBackend_pairs:
  "foldl (\<lambda>qs k. if k = ''PrivateKey'' \<or> k = ''Signature'' then qs
                    else qs @ ''&'' @ Encode1 k
                           (index (toParams (fields_AllocateBackendParam example_AllocateBackendParam)) k))
       [] (keys (toParams (fields_AllocateBackendParam example_AllocateBackendParam))) =
     ''&Action=AllocateBackend&Enabled=0&Port=80&Region=cn-bj2&ResourceId=uhost-1&ResourceType=UHost&ULBId=ulb-1&VServerId=vs-1''"
  by code_simp

text \<open>
  Claim C1 as stated fails: an \<^verbatim>\<open>AllocateBackendParam\<close> with \<^verbatim>\<open>Enabled: 0\<close> has
  \<^verbatim>\<open>Enabled0\<close> in its signing input and \<^verbatim>\<open>Enabled=0\<close> in its query string.
\<close>

theorem zero_int_field_is_signed_and_sent:
  "(''Enabled'', IntV 0) \<in> set (fields_AllocateBackendParam example_AllocateBackendParam)
   \<and> ''Enabled'' \<in> set (keys (toParams (fields_AllocateBackendParam example_AllocateBackendParam)))
   \<and> signingInput (toParams (fields_AllocateBackendParam example_AllocateBackendParam)) =
       ''ActionAllocateBackendEnabled0Port80Regioncn-bj2ResourceIduhost-1ResourceTypeUHostULBIdulb-1VServerIdvs-1secret''
   \<and> QueryString (PAllocateBackend example_AllocateBackendParam) =
       ''&Action=AllocateBackend&Enabled=0&Port=80&Region=cn-bj2&ResourceId=uhost-1&ResourceType=UHost&ULBId=ulb-1&VServerId=vs-1&Signature=''
         @ sha1_hex ''ActionAllocateBackendEnabled0Port80Regioncn-bj2ResourceIduhost-1ResourceTypeUHostULBIdulb-1VServerIdvs-1secret''"
proof -
  have "(''Enabled'', IntV 0) \<in> set (fields_AllocateBackendParam example_AllocateBackendParam)"
    by (simp add: fields_AllocateBackendParam_def example_AllocateBackendParam_def
        zero_AllocateBackendParam_def)
  moreover have "''Enabled'' \<in> set (keys (toParams (fields_AllocateBackendParam example_AllocateBackendParam)))"
    by (simp add: example_AllocateBackend_keys)
  ultimately show ?thesis
    unfolding QueryString.simps toQueryString_def example_AllocateBackend_pairs sig_def
      example_AllocateBackend_signingInput Encode1_Signature_hex
    by simp
qed

lemma example_DescribeULB_signingInput:
  "signingInput (toParams (fields_DescribeULBParam example_DescribeULBParam)) =
     ''ActionDescribeULBLimit100Offset0Regioncn-bj2secret''"
  by code_simp

lemma example_DescribeULB_pairs:
  "foldl (\<lambda>qs k. if k = ''PrivateKey'' \<or> k = ''Signature'' then qs
                    else qs @ ''&'' @ Encode1 k
                           (index (toParams (fields_DescribeULBParam example_DescribeULBParam)) k))
       [] (keys (toParams (fields_DescribeULBParam example_DescribeULBParam))) =
     ''&Action=DescribeULB&Limit=100&Offset=0&Region=cn-bj2''"
  by code_simp

text \<open>
  Claim C2, as the code has it.  A \<^verbatim>\<open>DescribeULBParam\<close> with \<^verbatim>\<open>Action\<close>,
  \<^verbatim>\<open>Region\<close> and \<^verbatim>\<open>Limit: 100\<close> set and the secret \<^verbatim>\<open>secret\<close> as its
  \<^verbatim>\<open>PrivateKey\<close> also has \<^verbatim>\<open>Offset: 0\<close>, printed as \<^verbatim>\<open>0\<close>.  The fields of
  the query string are Action, Limit, Offset, Region, then Signature, and the signature
  is the digest of \<^verbatim>\<open>ActionDescribeULBLimit100Offset0Regioncn-bj2secret\<close>.
\<close>

theorem sign_DescribeULB_example:
  "QueryString (PDescribeULB example_DescribeULBParam) =
     ''&Action=DescribeULB&Limit=100&Offset=0&Region=cn-bj2&Signature=''
       @ sha1_hex ''ActionDescribeULBLimit100Offset0Regioncn-bj2secret''"
  unfolding QueryString.simps toQueryString_def example_DescribeULB_pairs sig_def
    example_DescribeULB_signingInput Encode1_Signature_hex
  by simp

text \<open>
  Claim C2 as stated fails at that record: the signing input is not
  \<^verbatim>\<open>ActionDescribeULBLimit100Regioncn-bj2secret\<close>, and the query string is not the
  three pairs Action, Limit, Region followed by the digest of that string (with or
  without the leading \<^verbatim>\<open>&\<close>).
\<close>

theorem DescribeULB_example_is_not_three_fields:
  "signingInput (toParams (fields_DescribeULBParam example_DescribeULBParam))
       \<noteq> ''ActionDescribeULBLimit100Regioncn-bj2secret''
   \<and> QueryString (PDescribeULB example_DescribeULBParam)
       \<noteq> ''&Action=DescribeULB&Limit=100&Region=cn-bj2&Signature=''
           @ sha1_hex ''ActionDescribeULBLimit100Regioncn-bj2secret''
   \<and> QueryString (PDescribeULB example_DescribeULBParam)
       \<noteq> ''Action=DescribeULB&Limit=100&Region=cn-bj2&Signature=''
           @ sha1_hex ''ActionDescribeULBLimit100Regioncn-bj2secret''"
  unfolding QueryString.simps toQueryString_def example_DescribeULB_pairs sig_def
    example_DescribeULB_signingInput Encode1_Signature_hex
  by simp

section \<open>Properties of the typed API client\<close>

lemma getAndDecode_passesThrough: "passesThrough env url decode (getAndDecode env url decode)"
  unfolding passesThrough_def getAndDecode_def by (simp add: Let_def)

text \<open>
  Claim C7.  Each of the fifteen methods of \<^verbatim>\<open>UClient\<close> fetches its URL once; when
  the \<^verbatim>\<open>http.Get\<close> fails, that error is the method's error and the response is nil;
  when the body decodes without error, the decoded response is returned with a nil
  error, whatever its \<^verbatim>\<open>RetCode\<close>.
\<close>

theorem client_passes_transport_errors_and_status_through:
  "passesThrough env
       (GetQueryURL c
          (PDescribeULB (setKey_DescribeULBParam pDescribeULB
             (UClient.PublicKey c) (UClient.PrivateKey c))))
       (decodeDescribeULB env) (DescribeULB env c pDescribeULB)
   \<and> passesThrough env
       (GetQueryURL c
          (PCreateULB (setKey_CreateULBParam pCreateULB
             (UClient.PublicKey c) (UClient.PrivateKey c))))
       (decodeCreateULB env) (CreateULB env c pCreateULB)
   \<and> passesThrough env
       (GetQueryURL c
          (PUpdateULBAttribute (setKey_UpdateULBAttributeParam pUpdateULBAttribute
             (UClient.PublicKey c) (UClient.PrivateKey c))))
       (decodeStatus env) (UpdateULBAttribute env c pUpdateULBAttribute)
   \<and> passesThrough env
       (GetQueryURL c
          (PDeleteULB (setKey_DeleteULBParam pDeleteULB
             (UClient.PublicKey c) (UClient.PrivateKey c))))
       (decodeStatus env) (DeleteULB env c pDeleteULB)
   \<and> passesThrough env
       (GetQueryURL c
          (PCreateVServer (setKey_CreateVServerParam pCreateVServer
             (UClient.PublicKey c) (UClient.PrivateKey c))))
       (decodeCreateVServer env) (CreateVServer env c pCreateVServer)
   \<and> passesThrough env
       (GetQueryURL c
          (PUpdateVServerAttribute (setKey_UpdateVServerAttributeParam pUpdateVServerAttribute
             (UClient.PublicKey c) (UClient.PrivateKey c))))
       (decodeStatus env) (UpdateVServerAttribute env c pUpdateVServerAttribute)
   \<and> passesThrough env
       (GetQueryURL c
          (PDeleteVServer (setKey_DeleteVServerParam pDeleteVServer
             (UClient.PublicKey c) (UClient.PrivateKey c))))
       (decodeStatus env) (DeleteVServer env c pDeleteVServer)
   \<and> passesThrough env
       (GetQueryURL c
          (PAllocateBackend (setKey_AllocateBackendParam pAllocateBackend
             (UClient.PublicKey c) (UClient.PrivateKey c))))
       (decodeAllocateBackend env) (AllocateBackend env c pAllocateBackend)
   \<and> passesThrough env
       (GetQueryURL c
          (PUpdateBackendAttribute (setKey_UpdateBackendAttributeParam pUpdateBackendAttribute
             (UClient.PublicKey c) (UClient.PrivateKey c))))
       (decodeStatus env) (UpdateBackendAttribute env c pUpdateBackendAttribute)
   \<and> passesThrough env
       (GetQueryURL c
          (PReleaseBackend (setKey_ReleaseBackendParam pReleaseBackend
             (UClient.PublicKey c) (UClient.PrivateKey c))))
       (decodeStatus env) (ReleaseBackend env c pReleaseBackend)
   \<and> passesThrough env
       (GetQueryURL c
          (PAllocateEIP (setKey_AllocateEIPParam pAllocateEIP
             (UClient.PublicKey c) (UClient.PrivateKey c))))
       (decodeAllocateEIP env) (AllocateEIP env c pAllocateEIP)
   \<and> passesThrough env
       (GetQueryURL c
          (PBindEIP (setKey_BindEIPParam pBindEIP
             (UClient.PublicKey c) (UClient.PrivateKey c))))
       (decodeStatus env) (BindEIP env c pBindEIP)
   \<and> passesThrough env
       (GetQueryURL c
          (PUnBindEIP (setKey_UnBindEIPParam pUnbindEIP
             (UClient.PublicKey c) (UClient.PrivateKey c))))
       (decodeStatus env) (UnbindEIP env c pUnbindEIP)
   \<and> passesThrough env
       (GetQueryURL c
          (PReleaseEIP (setKey_ReleaseEIPParam pReleaseEIP
             (UClient.PublicKey c) (UClient.PrivateKey c))))
       (decodeStatus env) (ReleaseEIP env c pReleaseEIP)
   \<and> passesThrough env
       (GetQueryURL c
          (PDescribeUHostInstance (setKey_DescribeUHostInstanceParam pDescribeUHostInstance
             (UClient.PublicKey c) (UClient.PrivateKey c))))
       (decodeDescribeUHostInstance env) (DescribeUHostInstance env c pDescribeUHostInstance)"
  unfolding DescribeULB_def CreateULB_def UpdateULBAttribute_def DeleteULB_def
      CreateVServer_def UpdateVServerAttribute_def DeleteVServer_def AllocateBackend_def
      UpdateBackendAttribute_def ReleaseBackend_def AllocateEIP_def BindEIP_def UnbindEIP_def
      ReleaseEIP_def DescribeUHostInstance_def
  by (intro conjI getAndDecode_passesThrough)

text \<open>
  The theorem at an endpoint that refuses the connection (\<^verbatim>\<open>DescribeULB\<close>) and at
  one that answers \<^verbatim>\<open>RetCode\<close> 172 (\<^verbatim>\<open>AllocateBackend\<close>): the first returns the
  transport error, the second the response with a nil error.
\<close>

theorem client_passes_transport_errors_and_status_through_witness:
  "DescribeULB (example_env (\<lambda>h u. Inl ''connection refused'') [] []) example_client
       zero_DescribeULBParam example_world
     = ((None, Some (HttpError ''connection refused'')),
        example_world\<lparr>requests :=
          [GetQueryURL example_client
             (PDescribeULB (setKey_DescribeULBParam zero_DescribeULBParam
                (UClient.PublicKey example_client) (UClient.PrivateKey example_client)))]\<rparr>)
   \<and> AllocateBackend (example_env (\<lambda>h u. Inr 172) [] []) example_client
       zero_AllocateBackendParam example_world
     = ((Some \<lparr>ReturnStatus.RetCode = 172, ReturnStatus.Action = [],
               ReturnStatus.Message = ''remote failure'',
               AllocateBackendResponse.BackendID = ''backend-9''\<rparr>, None),
        example_world\<lparr>requests :=
          [GetQueryURL example_client
             (PAllocateBackend (setKey_AllocateBackendParam zero_AllocateBackendParam
                (UClient.PublicKey example_client) (UClient.PrivateKey example_client)))]\<rparr>)"
proof -
  let ?down = "example_env (\<lambda>h u. Inl ''connection refused'') [] []"
  let ?busy = "example_env (\<lambda>h u. Inr 172) [] []"
  have 1: "passesThrough ?down
       (GetQueryURL example_client
          (PDescribeULB (setKey_DescribeULBParam zero_DescribeULBParam
             (UClient.PublicKey example_client) (UClient.PrivateKey example_client))))
       (decodeDescribeULB ?down) (DescribeULB ?down example_client zero_DescribeULBParam)"
    using client_passes_transport_errors_and_status_through
      [where env = ?down and c = example_client and pDescribeULB = zero_DescribeULBParam]
    by simp
  have 2: "passesThrough ?busy
       (GetQueryURL example_client
          (PAllocateBackend (setKey_AllocateBackendParam zero_AllocateBackendParam
             (UClient.PublicKey example_client) (UClient.PrivateKey example_client))))
       (decodeAllocateBackend ?busy) (AllocateBackend ?busy example_client zero_AllocateBackendParam)"
    using client_passes_transport_errors_and_status_through
      [where env = ?busy and c = example_client and pAllocateBackend = zero_AllocateBackendParam]
    by simp
  have h1: "httpGet ?down (requests example_world) u = Inl ''connection refused''" for u
    by (simp add: example_defs)
  have h2: "httpGet ?busy (requests example_world) u = Inr 172" for u
    by (simp add: example_defs)
  have d2: "decodeAllocateBackend ?busy 172 =
      (\<lparr>ReturnStatus.RetCode = 172, ReturnStatus.Action = [],
               ReturnStatus.Message = ''remote failure'',
               AllocateBackendResponse.BackendID = ''backend-9''\<rparr>, None)"
    by (simp add: example_defs)
  from 1 h1 2 h2 d2 show ?thesis
    unfolding passesThrough_def by (simp add: example_world_def)
qed

lemma requests_getAndDecode:
  "requests (snd (getAndDecode env url decode w)) = requests w @ [url]"
  unfolding getAndDecode_def by (simp add: Let_def split: sum.splits prod.splits)

text \<open>
  Claim C8.  For each of the fifteen methods of \<^verbatim>\<open>UClient\<close>, the record that is
  turned into the signed query string has \<^verbatim>\<open>Action\<close> set to the operation's name and
  \<^verbatim>\<open>PublicKey\<close>, \<^verbatim>\<open>PrivateKey\<close> set to the client's, by \<^verbatim>\<open>setKey\<close>, whatever
  the caller had put in these three fields.
\<close>

theorem client_sets_action_and_keys:
  "keyedByClient c ''DescribeULB'' fields_DescribeULBParam
       (\<lambda>p a k s. p\<lparr>DescribeULBParam.Action := a,
                        DescribeULBParam.PublicKey := k,
                        DescribeULBParam.PrivateKey := s\<rparr>)
       (DescribeULB env c)
   \<and> keyedByClient c ''CreateULB'' fields_CreateULBParam
       (\<lambda>p a k s. p\<lparr>CreateULBParam.Action := a,
                        CreateULBParam.PublicKey := k,
                        CreateULBParam.PrivateKey := s\<rparr>)
       (CreateULB env c)
   \<and> keyedByClient c ''UpdateULBAttribute'' fields_UpdateULBAttributeParam
       (\<lambda>p a k s. p\<lparr>UpdateULBAttributeParam.Action := a,
                        UpdateULBAttributeParam.PublicKey := k,
                        UpdateULBAttributeParam.PrivateKey := s\<rparr>)
       (UpdateULBAttribute env c)
   \<and> keyedByClient c ''DeleteULB'' fields_DeleteULBParam
       (\<lambda>p a k s. p\<lparr>DeleteULBParam.Action := a,
                        DeleteULBParam.PublicKey := k,
                        DeleteULBParam.PrivateKey := s\<rparr>)
       (DeleteULB env c)
   \<and> keyedByClient c ''CreateVServer'' fields_CreateVServerParam
       (\<lambda>p a k s. p\<lparr>CreateVServerParam.Action := a,
                        CreateVServerParam.PublicKey := k,
                        CreateVServerParam.PrivateKey := s\<rparr>)
       (CreateVServer env c)
   \<and> keyedByClient c ''UpdateVServerAttribute'' fields_UpdateVServerAttributeParam
       (\<lambda>p a k s. p\<lparr>UpdateVServerAttributeParam.Action := a,
                        UpdateVServerAttributeParam.PublicKey := k,
                        UpdateVServerAttributeParam.PrivateKey := s\<rparr>)
       (UpdateVServerAttribute env c)
   \<and> keyedByClient c ''DeleteVServer'' fields_DeleteVServerParam
       (\<lambda>p a k s. p\<lparr>DeleteVServerParam.Action := a,
                        DeleteVServerParam.PublicKey := k,
                        DeleteVServerParam.PrivateKey := s\<rparr>)
       (DeleteVServer env c)
   \<and> keyedByClient c ''AllocateBackend'' fields_AllocateBackendParam
       (\<lambda>p a k s. p\<lparr>AllocateBackendParam.Action := a,
                        AllocateBackendParam.PublicKey := k,
                        AllocateBackendParam.PrivateKey := s\<rparr>)
       (AllocateBackend env c)
   \<and> keyedByClient c ''UpdateBackendAttribute'' fields_UpdateBackendAttributeParam
       (\<lambda>p a k s. p\<lparr>UpdateBackendAttributeParam.Action := a,
                        UpdateBackendAttributeParam.PublicKey := k,
                        UpdateBackendAttributeParam.PrivateKey := s\<rparr>)
       (UpdateBackendAttribute env c)
   \<and> keyedByClient c ''ReleaseBackend'' fields_ReleaseBackendParam
       (\<lambda>p a k s. p\<lparr>ReleaseBackendParam.Action := a,
                        ReleaseBackendParam.PublicKey := k,
                        ReleaseBackendParam.PrivateKey := s\<rparr>)
       (ReleaseBackend env c)
   \<and> keyedByClient c ''AllocateEIP'' fields_AllocateEIPParam
       (\<lambda>p a k s. p\<lparr>AllocateEIPParam.Action := a,
                        AllocateEIPParam.PublicKey := k,
                        AllocateEIPParam.PrivateKey := s\<rparr>)
       (AllocateEIP env c)
   \<and> keyedByClient c ''BindEIP'' fields_BindEIPParam
       (\<lambda>p a k s. p\<lparr>BindEIPParam.Action := a,
                        BindEIPParam.PublicKey := k,
                        BindEIPParam.PrivateKey := s\<rparr>)
       (BindEIP env c)
   \<and> keyedByClient c ''UnBindEIP'' fields_UnBindEIPParam
       (\<lambda>p a k s. p\<lparr>UnBindEIPParam.Action := a,
                        UnBindEIPParam.PublicKey := k,
                        UnBindEIPParam.PrivateKey := s\<rparr>)
       (UnbindEIP env c)
   \<and> keyedByClient c ''ReleaseEIP'' fields_ReleaseEIPParam
       (\<lambda>p a k s. p\<lparr>ReleaseEIPParam.Action := a,
                        ReleaseEIPParam.PublicKey := k,
                        ReleaseEIPParam.PrivateKey := s\<rparr>)
       (ReleaseEIP env c)
   \<and> keyedByClient c ''DescribeUHostInstance'' fields_DescribeUHostInstanceParam
       (\<lambda>p a k s. p\<lparr>DescribeUHostInstanceParam.Action := a,
                        DescribeUHostInstanceParam.PublicKey := k,
                        DescribeUHostInstanceParam.PrivateKey := s\<rparr>)
       (DescribeUHostInstance env c)"
  unfolding keyedByClient_def Let_def
  by (simp add: DescribeULB_def setKey_DescribeULBParam_def fields_DescribeULBParam_def
      CreateULB_def setKey_CreateULBParam_def fields_CreateULBParam_def UpdateULBAttribute_def
      setKey_UpdateULBAttributeParam_def fields_UpdateULBAttributeParam_def DeleteULB_def
      setKey_DeleteULBParam_def fields_DeleteULBParam_def CreateVServer_def
      setKey_CreateVServerParam_def fields_CreateVServerParam_def UpdateVServerAttribute_def
      setKey_UpdateVServerAttributeParam_def fields_UpdateVServerAttributeParam_def
      DeleteVServer_def setKey_DeleteVServerParam_def fields_DeleteVServerParam_def
      AllocateBackend_def setKey_AllocateBackendParam_def fields_AllocateBackendParam_def
      UpdateBackendAttribute_def setKey_UpdateBackendAttributeParam_def
      fields_UpdateBackendAttributeParam_def ReleaseBackend_def setKey_ReleaseBackendParam_def
      fields_ReleaseBackendParam_def AllocateEIP_def setKey_AllocateEIPParam_def
      fields_AllocateEIPParam_def BindEIP_def setKey_BindEIPParam_def fields_BindEIPParam_def
      UnbindEIP_def setKey_UnBindEIPParam_def fields_UnBindEIPParam_def ReleaseEIP_def
      setKey_ReleaseEIPParam_def fields_ReleaseEIPParam_def DescribeUHostInstance_def
      setKey_DescribeUHostInstanceParam_def fields_DescribeUHostInstanceParam_def
      GetQueryURL_def
      requests_getAndDecode fmlookup_toParams Sprintf_v_def)

section \<open>Properties of the provider adapter\<close>

lemma getAndDecode_world:
  "snd (getAndDecode env url decode w) = w\<lparr>requests := requests w @ [url]\<rparr>"
  unfolding getAndDecode_def by (simp add: Let_def split: sum.splits prod.splits)

text \<open>No method of the client returns a nil response together with a nil error.\<close>

lemma getAndDecode_not_nil_nil: "fst (getAndDecode env url decode w) \<noteq> (None, None)"
  unfolding getAndDecode_def by (simp add: Let_def split: sum.splits prod.splits)

lemma getAndDecode_errlog: "errlog (snd (getAndDecode env url decode w)) = errlog w"
  by (simp add: getAndDecode_world)

lemma getAndDecode_eq:
  "getAndDecode env url decode w =
     ((case httpGet env (requests w) url of
         Inl msg \<Rightarrow> (None, Some (HttpError msg))
       | Inr b \<Rightarrow> (Some (fst (decode b)), map_option JsonError (snd (decode b)))),
      w\<lparr>requests := requests w @ [url]\<rparr>)"
  unfolding getAndDecode_def by (simp add: Let_def split: sum.splits prod.splits)

lemma describeLoadBalancer_world:
  assumes "describeLoadBalancer env c name w = (res, w1)"
  shows "w1 = w\<lparr>requests := requests w @
           [describeULB_URL c]\<rparr>"
  using assms
  unfolding describeLoadBalancer_def DescribeULB_def Let_def getAndDecode_eq describeULB_URL_def
  by (auto split: if_splits option.splits sum.splits)

lemma describeLoadBalancer_result:
  assumes "describeLoadBalancer env c name w = (res, w1)"
  shows "(\<exists>e. res = Inr (None, Some e)) \<or> (\<exists>lb. res = Inr (Some lb, None))"
  using assms unfolding describeLoadBalancer_def DescribeULB_def Let_def getAndDecode_eq
  by (auto split: if_splits option.splits sum.splits)

lemma releaseEIPs_returns: "\<exists>w'. releaseEIPs env c ips w = (Inr (), w')"
proof (induction ips arbitrary: w)
  case Nil
  show ?case by simp
next
  case (Cons ipSet rest)
  show ?case
    unfolding releaseEIPs.simps ReleaseEIP_def Let_def getAndDecode_eq
    by (auto simp: Cons.IH split: option.splits sum.splits)
qed

text \<open>
  Claim C6.  When the \<^verbatim>\<open>DescribeULB\<close> call of \<^verbatim>\<open>describeLoadBalancer\<close> returns a
  response with a nil error and \<^verbatim>\<open>RetCode\<close> 0, and no entry of its \<^verbatim>\<open>DataSet\<close> has
  the requested name, the lookup returns the sentinel \<^verbatim>\<open>ULBNotFound\<close>.
\<close>

theorem describeLoadBalancer_no_match_is_ULBNotFound:
  assumes "DescribeULB env (Cloud.UClient c)
             (zero_DescribeULBParam
                \<lparr>DescribeULBParam.Region := Cloud.Region c,
                 DescribeULBParam.ProjectID := Cloud.ProjectID c,
                 DescribeULBParam.Limit := 100\<rparr>) w = ((Some resp, None), w')"
    and "ReturnStatus.RetCode resp = 0"
    and "\<forall>lb \<in> set (DescribeULBResponse.DataSet resp). ULBSet.Name lb \<noteq> name"
  shows "describeLoadBalancer env c name w = (Inr (None, Some ULBNotFound), w')"
proof -
  have "find (\<lambda>lb. ULBSet.Name lb = name) (DescribeULBResponse.DataSet resp) = None"
    using assms(3) by (simp add: find_None_iff)
  then show ?thesis
    using assms(1,2) by (simp add: describeLoadBalancer_def Let_def)
qed

text \<open>
  The theorem at an endpoint that lists two load balancers under other names.
\<close>

theorem describeLoadBalancer_no_match_is_ULBNotFound_witness:
  "describeLoadBalancer
     (example_env (\<lambda>h u. Inr 0) [example_ULBSet ''b7d1'' [] [], example_ULBSet ''c802'' [] []] [])
     example_cloud ''a5f3c9e0'' example_world
   = (Inr (None, Some ULBNotFound),
      example_world\<lparr>requests :=
        [describeULB_URL example_cloud]\<rparr>)"
  by (rule describeLoadBalancer_no_match_is_ULBNotFound
        [where resp = "fst (decodeDescribeULB (example_env (\<lambda>h u. Inr 0)
            [example_ULBSet ''b7d1'' [] [], example_ULBSet ''c802'' [] []] []) 0)"])
     (simp_all add: DescribeULB_def getAndDecode_def describeULB_URL_def example_defs)

text \<open>
  Claim C5.  When the lookup of \<^verbatim>\<open>deleteLoadBalancer\<close> yields \<^verbatim>\<open>ULBNotFound\<close>, the
  deletion returns nil, and the \<^verbatim>\<open>DescribeULB\<close> request of the lookup is the only
  request fetched: no \<^verbatim>\<open>DeleteULB\<close> request is issued, and nothing is logged.
\<close>

theorem delete_absent_load_balancer_is_success:
  assumes "describeLoadBalancer env c name w = (Inr (ulbSet, Some ULBNotFound), w1)"
  shows "deleteLoadBalancer env c name w = (Inr None, w1)
       \<and> requests w1 = requests w @
           [describeULB_URL c]
       \<and> errlog w1 = errlog w"
  using assms describeLoadBalancer_world[OF assms]
  by (simp add: deleteLoadBalancer_def)

text \<open>
  The theorem at an endpoint whose only load balancer has another name.
\<close>

theorem delete_absent_load_balancer_is_success_witness:
  "describeLoadBalancer (example_env (\<lambda>h u. Inr 0) [example_ULBSet ''b7d1'' [] []] [])
       example_cloud ''a5f3c9e0'' example_world
     = (Inr (None, Some ULBNotFound),
        example_world\<lparr>requests :=
          [describeULB_URL example_cloud]\<rparr>)
   \<and> deleteLoadBalancer (example_env (\<lambda>h u. Inr 0) [example_ULBSet ''b7d1'' [] []] [])
       example_cloud ''a5f3c9e0'' example_world
     = (Inr None,
        example_world\<lparr>requests :=
          [describeULB_URL example_cloud]\<rparr>)"
proof -
  let ?env = "example_env (\<lambda>h u. Inr 0) [example_ULBSet ''b7d1'' [] []] []"
  let ?w1 = "example_world\<lparr>requests :=
          [describeULB_URL example_cloud]\<rparr>"
  have look: "describeLoadBalancer ?env example_cloud ''a5f3c9e0'' example_world
                = (Inr (None, Some ULBNotFound), ?w1)"
    by (simp add: describeLoadBalancer_def DescribeULB_def getAndDecode_def describeULB_URL_def
        example_defs)
  from delete_absent_load_balancer_is_success[OF look] look show ?thesis by simp
qed

text \<open>
  Claim C9.  \<^verbatim>\<open>deleteLoadBalancer\<close> dereferences a nil pointer when the lookup fails
  with an error other than \<^verbatim>\<open>ULBNotFound\<close> (at \<^verbatim>\<open>ulbSet.ULBID\<close>, before any
  \<^verbatim>\<open>DeleteULB\<close> request) and when the lookup finds the load balancer and the
  \<^verbatim>\<open>http.Get\<close> of the \<^verbatim>\<open>DeleteULB\<close> request fails (at \<^verbatim>\<open>r.RetCode\<close>, after
  the error has been logged).  These are the only cases: it does not panic exactly when
  the lookup yields \<^verbatim>\<open>ULBNotFound\<close>, or yields a load balancer and the
  \<^verbatim>\<open>DeleteULB\<close> request gets a response body; and then it returns nil.
\<close>

theorem deleteLoadBalancer_nil_dereference:
  assumes look: "describeLoadBalancer env c name w = (res, w1)"
  shows "(\<forall>e. res = Inr (None, Some e) \<and> e \<noteq> ULBNotFound \<longrightarrow>
            deleteLoadBalancer env c name w = (Inl NilDereference, w1))
       \<and> (\<forall>ulb msg. res = Inr (Some ulb, None) \<and> httpGet env (requests w1) (deleteULB_URL c (ULBSet.ULBID ulb)) = Inl msg \<longrightarrow>
            deleteLoadBalancer env c name w =
              (Inl NilDereference,
               w1\<lparr>requests := requests w1 @ [deleteULB_URL c (ULBSet.ULBID ulb)],
                  errlog := errlog w1 @ [LogError (HttpError msg)]\<rparr>))
       \<and> (fst (deleteLoadBalancer env c name w) = Inl NilDereference \<longleftrightarrow>
            \<not> (res = Inr (None, Some ULBNotFound)
               \<or> (\<exists>ulb body. res = Inr (Some ulb, None)
                     \<and> httpGet env (requests w1) (deleteULB_URL c (ULBSet.ULBID ulb)) = Inr body)))
       \<and> (fst (deleteLoadBalancer env c name w) = Inl NilDereference
            \<or> fst (deleteLoadBalancer env c name w) = Inr None)"
proof -
  have A: "deleteLoadBalancer env c name w = (Inl NilDereference, w1)"
    if "res = Inr (None, Some e)" "e \<noteq> ULBNotFound" for e
    using look that by (simp add: deleteLoadBalancer_def)
  have B: "deleteLoadBalancer env c name w =
              (Inl NilDereference,
               w1\<lparr>requests := requests w1 @ [deleteULB_URL c (ULBSet.ULBID ulb)],
                  errlog := errlog w1 @ [LogError (HttpError msg)]\<rparr>)"
    if "res = Inr (Some ulb, None)" "httpGet env (requests w1) (deleteULB_URL c (ULBSet.ULBID ulb)) = Inl msg" for ulb msg
    using look that
    by (simp add: deleteLoadBalancer_def DeleteULB_def getAndDecode_def Let_def deleteULB_URL_def
        glogError_def)
  have C: "fst (deleteLoadBalancer env c name w) = Inr None"
    if "res = Inr (None, Some ULBNotFound)"
    using look that by (simp add: deleteLoadBalancer_def)
  have D: "fst (deleteLoadBalancer env c name w) = Inr None"
    if "res = Inr (Some ulb, None)" "httpGet env (requests w1) (deleteULB_URL c (ULBSet.ULBID ulb)) = Inr body" for ulb body
  proof -
    obtain r e where d: "decodeStatus env body = (r, e)" by (cases "decodeStatus env body")
    show ?thesis
      using look that d releaseEIPs_returns[of env c "ULBSet.IPSet ulb"]
      apply (simp add: deleteLoadBalancer_def DeleteULB_def getAndDecode_def Let_def deleteULB_URL_def)
      apply (auto split: option.splits prod.splits sum.splits)
         apply (metis Inl_Inr_False fst_conv)+
      done
  qed
  have E: "(\<exists>e. res = Inr (None, Some e)) \<or> (\<exists>lb. res = Inr (Some lb, None))"
    using describeLoadBalancer_result[OF look] .
  have F: "(\<exists>msg. httpGet env (requests w1) u = Inl msg) \<or> (\<exists>body. httpGet env (requests w1) u = Inr body)" for u
    by (cases "httpGet env (requests w1) u") auto
  show ?thesis
  proof (intro conjI allI impI)
    fix e assume "res = Inr (None, Some e) \<and> e \<noteq> ULBNotFound"
    then show "deleteLoadBalancer env c name w = (Inl NilDereference, w1)" using A by blast
  next
    fix ulb msg
    assume "res = Inr (Some ulb, None) \<and> httpGet env (requests w1) (deleteULB_URL c (ULBSet.ULBID ulb)) = Inl msg"
    then show "deleteLoadBalancer env c name w =
              (Inl NilDereference,
               w1\<lparr>requests := requests w1 @ [deleteULB_URL c (ULBSet.ULBID ulb)],
                  errlog := errlog w1 @ [LogError (HttpError msg)]\<rparr>)" using B by blast
  next
    show "fst (deleteLoadBalancer env c name w) = Inl NilDereference \<longleftrightarrow>
            \<not> (res = Inr (None, Some ULBNotFound)
               \<or> (\<exists>ulb body. res = Inr (Some ulb, None)
                     \<and> httpGet env (requests w1) (deleteULB_URL c (ULBSet.ULBID ulb)) = Inr body))"
      using A B C D E F
      by (metis Inl_Inr_False fst_conv option.inject old.prod.inject sum.inject(2) Inl_inject Inr_inject option.distinct(1))
  next
    show "fst (deleteLoadBalancer env c name w) = Inl NilDereference
            \<or> fst (deleteLoadBalancer env c name w) = Inr None"
      using A B C D E F by (metis fst_conv)
  qed
qed

text \<open>
  The theorem at an endpoint that refuses every connection: the lookup fails with the
  transport error and the deletion panics.
\<close>

theorem deleteLoadBalancer_nil_dereference_witness:
  "describeLoadBalancer (example_env (\<lambda>h u. Inl ''connection refused'') [] [])
       example_cloud ''a5f3c9e0'' example_world
     = (Inr (None, Some (HttpError ''connection refused'')),
        example_world\<lparr>requests :=
          [describeULB_URL example_cloud]\<rparr>)
   \<and> deleteLoadBalancer (example_env (\<lambda>h u. Inl ''connection refused'') [] [])
       example_cloud ''a5f3c9e0'' example_world
     = (Inl NilDereference,
        example_world\<lparr>requests :=
          [describeULB_URL example_cloud]\<rparr>)"
proof -
  let ?env = "example_env (\<lambda>h u. Inl ''connection refused'') [] []"
  let ?w1 = "example_world\<lparr>requests :=
          [describeULB_URL example_cloud]\<rparr>"
  have look: "describeLoadBalancer ?env example_cloud ''a5f3c9e0'' example_world
                = (Inr (None, Some (HttpError ''connection refused'')), ?w1)"
    by (simp add: describeLoadBalancer_def DescribeULB_def getAndDecode_def describeULB_URL_def
        example_defs)
  from deleteLoadBalancer_nil_dereference[OF look] look show ?thesis by simp
qed

text \<open>
  Claim C10 at a failing input.  The lookup finds the load balancer; the
  \<^verbatim>\<open>DeleteULB\<close> request then fails at the transport level.  The error is logged, and
  \<^verbatim>\<open>EnsureLoadBalancerDeleted\<close> panics on \<^verbatim>\<open>r.RetCode\<close> instead of returning nil.
\<close>

theorem EnsureLoadBalancerDeleted_panics_when_DeleteULB_unreachable:
  "EnsureLoadBalancerDeleted
     (example_env (\<lambda>h u. if h = [] then Inr 0 else Inl ''i/o timeout'')
        [example_ULBSet ''a5f3c9e0'' [] []] [])
     example_cloud ''kubernetes'' example_service example_world
   = (Inl NilDereference,
      \<lparr>requests =
         [describeULB_URL example_cloud,
          deleteULB_URL example_cloud ''ulb-1''],
       errlog = [LogError (HttpError ''i/o timeout'')]\<rparr>)"
  by (simp add: EnsureLoadBalancerDeleted_def deleteLoadBalancer_def describeLoadBalancer_def
      DescribeULB_def DeleteULB_def getAndDecode_def glogError_def describeULB_URL_def
      deleteULB_URL_def example_defs)

text \<open>\<open>permute ns\<close> is a permutation, for every \<open>ns\<close>.\<close>

lemma set_remove_nth:
  assumes "i < length ys"
  shows "set ys = insert (ys ! i) (set (take i ys @ drop (Suc i) ys))"
proof -
  have "set ys = set (take i ys @ ys ! i # drop (Suc i) ys)"
    using id_take_nth_drop[OF assms] by (rule arg_cong)
  then show ?thesis by simp
qed

lemma distinct_remove_nth:
  assumes "i < length ys" and "distinct ys"
  shows "distinct (take i ys @ drop (Suc i) ys)"
    and "ys ! i \<notin> set (take i ys @ drop (Suc i) ys)"
proof -
  have "distinct (take i ys @ ys ! i # drop (Suc i) ys)"
    using id_take_nth_drop[OF assms(1)] assms(2) by (rule subst)
  then show "distinct (take i ys @ drop (Suc i) ys)"
    and "ys ! i \<notin> set (take i ys @ drop (Suc i) ys)"
    by auto
qed

lemma permute_Cons:
  "permute (n # ns) (x # xs) =
     (x # xs) ! (n mod length (x # xs))
       # permute ns (take (n mod length (x # xs)) (x # xs)
                      @ drop (Suc (n mod length (x # xs))) (x # xs))"
  by (simp add: Let_def)

lemma set_permute: "set (permute ns xs) = set xs"
proof (induction ns xs rule: permute.induct)
  case (3 n ns x xs)
  have i: "n mod length (x # xs) < length (x # xs)" by simp
  show ?case
    unfolding permute_Cons using "3.IH"[OF refl] set_remove_nth[OF i]
    by (simp only: list.set(2))
qed simp_all

lemma distinct_permute: "distinct xs \<Longrightarrow> distinct (permute ns xs)"
proof (induction ns xs rule: permute.induct)
  case (3 n ns x xs)
  have i: "n mod length (x # xs) < length (x # xs)" by simp
  show ?case
    unfolding permute_Cons
    using "3.IH"[OF refl distinct_remove_nth(1)[OF i "3.prems"]]
      distinct_remove_nth(2)[OF i "3.prems"]
    by (simp only: distinct.simps(2) set_permute simp_thms)
qed simp_all

lemma map_fst_map_filter:
  assumes "\<And>k. k \<in> set ks \<Longrightarrow> m k \<noteq> None"
  shows "map fst (List.map_filter (\<lambda>k. map_option (Pair k) (m k)) ks) = ks"
proof -
  have "filter (\<lambda>k. map_option (Pair k) (m k) \<noteq> None) ks = ks"
    using assms by (simp add: filter_id_conv)
  moreover have "fst (the (map_option (Pair k) (m k))) = k" if "k \<in> set ks" for k
    using assms[OF that] by auto
  then have "map (fst \<circ> (the \<circ> (\<lambda>k. map_option (Pair k) (m k)))) ks = ks"
    by (intro map_idI) simp
  ultimately show ?thesis by (simp add: List.map_filter_def)
qed

lemma map_fst_rangeMap:
  "map fst (rangeMap env m) =
     permute (rangeSeed env (sorted_list_of_fset (fmdom m))) (sorted_list_of_fset (fmdom m))"
  unfolding rangeMap_def Let_def
  by (rule map_fst_map_filter) (auto simp: set_permute fmdom_notD)

lemma distinct_rangeMap: "distinct (map fst (rangeMap env m))"
  by (simp add: map_fst_rangeMap distinct_permute sorted_list_of_fset.rep_eq)

lemma set_fst_rangeMap: "set (map fst (rangeMap env m)) = fset (fmdom m)"
  by (simp add: map_fst_rangeMap set_permute)

lemma rangeMap_lookup: "(k, v) \<in> set (rangeMap env m) \<Longrightarrow> fmlookup m k = Some v"
  unfolding rangeMap_def Let_def by (auto simp: List.map_filter_def)

lemma fmdom_boolMap_aux:
  "fmdom (fold (\<lambda>x m. fmupd x True m) xs m0) = fset_of_list xs |\<union>| fmdom m0"
  by (induction xs arbitrary: m0) auto

lemma fmdom_boolMap: "fmdom (boolMap xs) = fset_of_list xs"
  by (simp add: boolMap_def fmdom_boolMap_aux)

lemma fmdom_backendMap_aux:
  "fmdom (fold (\<lambda>backend m. fmupd (ULBBackendSet.ResourceID backend)
                               (ULBBackendSet.BackendID backend) m) bs m0)
     = fset_of_list (map ULBBackendSet.ResourceID bs) |\<union>| fmdom m0"
  by (induction bs arbitrary: m0) auto

lemma fmdom_backendMap: "fmdom (backendMap bs) = fset_of_list (map ULBBackendSet.ResourceID bs)"
  by (simp add: backendMap_def fmdom_backendMap_aux)

lemma UpdateLoadBalancer_after_lookup:
  assumes "describeLoadBalancer env c (GetLoadBalancerName env service) w = (Inr (Some ulb, None), w1)"
    and "ServiceSpec.Ports (Service.Spec service) = sp # ports"
    and "getUHostIDs env c nodeNames w1 = (Inr (uHostIDs, None), w2)"
    and "ULBSet.VServerSet ulb = vs # vss"
  shows "UpdateLoadBalancer env c clusterName service nodeNames w =
           (case releaseBackends env c (ULBSet.ULBID ulb) (boolMap uHostIDs)
                   (rangeMap env (backendMap (ULBVServerSet.VServerSet vs))) w2 of
              (Inr None, w3) \<Rightarrow>
                allocateBackends env c (ULBSet.ULBID ulb) (ULBVServerSet.VserverID vs)
                  (sint (ServicePort.Port sp)) (backendMap (ULBVServerSet.VServerSet vs))
                  (map fst (rangeMap env (boolMap uHostIDs))) w3
            | (res, w3) \<Rightarrow> (res, w3))"
  using assms by (simp add: UpdateLoadBalancer_def Let_def)

lemma runPlan_append:
  "runPlan env (p1 @ p2) w =
     (case runPlan env p1 w of
        (None, w') \<Rightarrow> runPlan env p2 w'
      | (Some e, w') \<Rightarrow> (Some e, w'))"
  by (induction p1 arbitrary: w) (auto split: option.splits)

lemma runPlan_stops_at_first_failure:
  assumes "runPlan env plan w = (err, w')"
  shows "\<exists>n. n \<le> length plan
           \<and> requests w' = requests w @ map fst (take n plan)
           \<and> errlog w' = errlog w
           \<and> (\<forall>i<n. callError env (requests w @ map fst (take i plan)) (plan ! i)
                       = (if Suc i = n then err else None))
           \<and> (err = None \<longrightarrow> n = length plan)
           \<and> (err \<noteq> None \<longrightarrow> 0 < n)"
  using assms
proof (induction plan arbitrary: w)
  case Nil
  then show ?case by auto
next
  case (Cons call rest)
  show ?case
  proof (cases "callError env (requests w) call")
    case (Some e)
    with Cons.prems have "err = Some e" "w' = w\<lparr>requests := requests w @ [fst call]\<rparr>"
      by auto
    with Some show ?thesis by (intro exI[of _ 1]) auto
  next
    case None
    let ?w1 = "w\<lparr>requests := requests w @ [fst call]\<rparr>"
    from None Cons.prems have "runPlan env rest ?w1 = (err, w')" by simp
    from Cons.IH[OF this] obtain n where n: "n \<le> length rest"
      "requests w' = requests ?w1 @ map fst (take n rest)"
      "errlog w' = errlog ?w1"
      "\<forall>i<n. callError env (requests ?w1 @ map fst (take i rest)) (rest ! i)
                       = (if Suc i = n then err else None)"
      "err = None \<longrightarrow> n = length rest" "err \<noteq> None \<longrightarrow> 0 < n"
      by blast
    have "callError env (requests w @ map fst (take i (call # rest))) ((call # rest) ! i)
            = (if Suc i = Suc n then err else None)" if "i < Suc n" for i
    proof (cases i)
      case 0
      with None n(6) show ?thesis by auto
    next
      case (Suc j)
      with that n(4) show ?thesis by auto
    qed
    with n show ?thesis by (intro exI[of _ "Suc n"]) auto
  qed
qed

lemma ReleaseBackend_callError:
  "ReleaseBackend env (Cloud.UClient c)
     (zero_ReleaseBackendParam
        \<lparr>ReleaseBackendParam.Region := Cloud.Region c,
         ReleaseBackendParam.ProjectID := Cloud.ProjectID c,
         ReleaseBackendParam.ULBID := ulbID,
         ReleaseBackendParam.BackendID := backendID\<rparr>) w = ((r, err), w')
   \<Longrightarrow> w' = w\<lparr>requests := requests w @ [releaseURL c ulbID backendID]\<rparr>
     \<and> (r, err) \<noteq> (None, None)
     \<and> callError env (requests w) (releaseURL c ulbID backendID, bodyError (decodeStatus env))
         = (case err of Some e \<Rightarrow> Some e
            | None \<Rightarrow> (case r of None \<Rightarrow> None
                | Some rs \<Rightarrow> if ReturnStatus.RetCode rs \<noteq> 0
                             then Some (ErrorsNew (ReturnStatus.Message rs)) else None))"
  unfolding ReleaseBackend_def getAndDecode_eq releaseURL_def callError_def bodyError_def
  by (auto split: sum.splits prod.splits option.splits)

lemma AllocateBackend_callError:
  "AllocateBackend env (Cloud.UClient c)
     (zero_AllocateBackendParam
        \<lparr>AllocateBackendParam.Region := Cloud.Region c,
         AllocateBackendParam.ProjectID := Cloud.ProjectID c,
         AllocateBackendParam.ULBID := ulbID,
         AllocateBackendParam.VServerID := vserverID,
         AllocateBackendParam.ResourceType := ''UHost'',
         AllocateBackendParam.ResourceID := host,
         AllocateBackendParam.Port := port,
         AllocateBackendParam.Enabled := 1\<rparr>) w = ((r, err), w')
   \<Longrightarrow> w' = w\<lparr>requests := requests w @ [allocateURL c ulbID vserverID port host]\<rparr>
     \<and> (r, err) \<noteq> (None, None)
     \<and> callError env (requests w)
           (allocateURL c ulbID vserverID port host, bodyError (decodeAllocateBackend env))
         = (case err of Some e \<Rightarrow> Some e
            | None \<Rightarrow> (case r of None \<Rightarrow> None
                | Some rs \<Rightarrow> if ReturnStatus.RetCode rs \<noteq> 0
                             then Some (ErrorsNew (ReturnStatus.Message rs)) else None))"
  unfolding AllocateBackend_def getAndDecode_eq allocateURL_def callError_def bodyError_def
  by (auto split: sum.splits prod.splits option.splits)

lemma releaseBackends_runPlan:
  "releaseBackends env c ulbID m1 kvs w =
     (case runPlan env
             (map (\<lambda>(host, backendID). (releaseURL c ulbID backendID, bodyError (decodeStatus env)))
                (filter (\<lambda>(host, backendID). host |\<notin>| fmdom m1) kvs)) w of
        (err, w') \<Rightarrow> (Inr err, w'))"
proof (induction kvs arbitrary: w)
  case Nil
  show ?case by simp
next
  case (Cons kv kvs)
  obtain host backendID where kv: "kv = (host, backendID)" by (cases kv)
  show ?case
  proof (cases "host |\<in>| fmdom m1")
    case True
    then show ?thesis by (simp add: kv Cons.IH)
  next
    case False
    obtain r err w' where call: "ReleaseBackend env (Cloud.UClient c)
     (zero_ReleaseBackendParam
        \<lparr>ReleaseBackendParam.Region := Cloud.Region c,
         ReleaseBackendParam.ProjectID := Cloud.ProjectID c,
         ReleaseBackendParam.ULBID := ulbID,
         ReleaseBackendParam.BackendID := backendID\<rparr>) w = ((r, err), w')"
      by (metis surj_pair)
    note ce = ReleaseBackend_callError[OF call]
    show ?thesis
      using False ce
      by (cases err; cases r) (auto simp: kv Cons.IH Let_def call)
  qed
qed

lemma allocateBackends_runPlan:
  "allocateBackends env c ulbID vserverID port m2 hs w =
     (case runPlan env
             (map (\<lambda>host. (allocateURL c ulbID vserverID port host,
                            bodyError (decodeAllocateBackend env)))
                (filter (\<lambda>host. host |\<notin>| fmdom m2) hs)) w of
        (err, w') \<Rightarrow> (Inr err, w'))"
proof (induction hs arbitrary: w)
  case Nil
  show ?case by simp
next
  case (Cons host hs)
  show ?case
  proof (cases "host |\<in>| fmdom m2")
    case True
    then show ?thesis by (simp add: Cons.IH)
  next
    case False
    obtain r err w' where call: "AllocateBackend env (Cloud.UClient c)
     (zero_AllocateBackendParam
        \<lparr>AllocateBackendParam.Region := Cloud.Region c,
         AllocateBackendParam.ProjectID := Cloud.ProjectID c,
         AllocateBackendParam.ULBID := ulbID,
         AllocateBackendParam.VServerID := vserverID,
         AllocateBackendParam.ResourceType := ''UHost'',
         AllocateBackendParam.ResourceID := host,
         AllocateBackendParam.Port := port,
         AllocateBackendParam.Enabled := 1\<rparr>) w = ((r, err), w')"
      by (metis surj_pair)
    note ce = AllocateBackend_callError[OF call]
    show ?thesis
      using False ce
      by (cases err; cases r) (auto simp: Cons.IH Let_def call)
  qed
qed

lemma UpdateLoadBalancer_runPlan:
  assumes "describeLoadBalancer env c (GetLoadBalancerName env service) w = (Inr (Some ulb, None), w1)"
    and "ServiceSpec.Ports (Service.Spec service) = sp # ports"
    and "getUHostIDs env c nodeNames w1 = (Inr (uHostIDs, None), w2)"
    and "ULBSet.VServerSet ulb = vs # vss"
  shows "UpdateLoadBalancer env c clusterName service nodeNames w =
           (case runPlan env
                   (updatePlan env c (ULBSet.ULBID ulb) (ULBVServerSet.VserverID vs)
                      (sint (ServicePort.Port sp))
                      (filter (\<lambda>(host, backendID). host |\<notin>| fmdom (boolMap uHostIDs))
                         (rangeMap env (backendMap (ULBVServerSet.VServerSet vs))))
                      (filter (\<lambda>host. host |\<notin>| fmdom (backendMap (ULBVServerSet.VServerSet vs)))
                         (map fst (rangeMap env (boolMap uHostIDs))))) w2 of
              (err, w3) \<Rightarrow> (Inr err, w3))"
  unfolding UpdateLoadBalancer_after_lookup[OF assms] updatePlan_def runPlan_append
    releaseBackends_runPlan allocateBackends_runPlan
  by (auto split: prod.splits option.splits)

lemma fmlookup_backendMap_aux:
  "fmlookup (fold (\<lambda>backend m. fmupd (ULBBackendSet.ResourceID backend)
                               (ULBBackendSet.BackendID backend) m) bs m0) host = Some backendID
   \<Longrightarrow> host \<in> ULBBackendSet.ResourceID ` set bs
   \<Longrightarrow> \<exists>pre b post. bs = pre @ b # post \<and> ULBBackendSet.ResourceID b = host
         \<and> ULBBackendSet.BackendID b = backendID
         \<and> host \<notin> ULBBackendSet.ResourceID ` set post"
proof (induction bs arbitrary: m0 rule: rev_induct)
  case Nil
  then show ?case by simp
next
  case (snoc b bs)
  show ?case
  proof (cases "ULBBackendSet.ResourceID b = host")
    case True
    with snoc.prems(1) have "ULBBackendSet.BackendID b = backendID" by simp
    with True show ?thesis by (intro exI[of _ bs] exI[of _ b] exI[of _ "[]"]) simp
  next
    case False
    with snoc.prems have "fmlookup (fold (\<lambda>backend m. fmupd (ULBBackendSet.ResourceID backend)
                               (ULBBackendSet.BackendID backend) m) bs m0) host = Some backendID"
      and "host \<in> ULBBackendSet.ResourceID ` set bs" by auto
    from snoc.IH[OF this] obtain pre b' post where
      "bs = pre @ b' # post" "ULBBackendSet.ResourceID b' = host"
      "ULBBackendSet.BackendID b' = backendID" "host \<notin> ULBBackendSet.ResourceID ` set post"
      by blast
    with False show ?thesis
      by (intro exI[of _ pre] exI[of _ b'] exI[of _ "post @ [b]"]) auto
  qed
qed

lemma fmlookup_backendMap_last:
  assumes "fmlookup (backendMap bs) host = Some backendID"
  shows "\<exists>pre b post. bs = pre @ b # post \<and> ULBBackendSet.ResourceID b = host
         \<and> ULBBackendSet.BackendID b = backendID
         \<and> host \<notin> ULBBackendSet.ResourceID ` set post"
proof -
  from assms have "host |\<in>| fmdom (backendMap bs)" by (rule fmdomI)
  then have "host \<in> ULBBackendSet.ResourceID ` set bs"
    by (simp add: fmdom_backendMap fset_of_list.rep_eq)
  with assms show ?thesis unfolding backendMap_def by (rule fmlookup_backendMap_aux)
qed

lemma rangeMap_complete:
  "fmlookup m k = Some v \<Longrightarrow> (k, v) \<in> set (rangeMap env m)"
proof -
  assume l: "fmlookup m k = Some v"
  then have "k \<in> set (map fst (rangeMap env m))"
    by (simp only: set_fst_rangeMap) (auto intro: fmdomI)
  then obtain v' where "(k, v') \<in> set (rangeMap env m)" by auto
  with l rangeMap_lookup[OF this] show ?thesis by simp
qed

lemma getUHostIDs_resolves:
  assumes "getUHostIDs env c nodeNames w1 = (Inr (uHostIDs, None), w2)"
  shows "\<exists>r. DescribeUHostInstance env (Cloud.UClient c)
               (zero_DescribeUHostInstanceParam
                  \<lparr>DescribeUHostInstanceParam.Region := Cloud.Region c,
                   DescribeUHostInstanceParam.ProjectID := Cloud.ProjectID c,
                   DescribeUHostInstanceParam.Limit := 100\<rparr>) w1 = ((Some r, None), w2)
           \<and> ReturnStatus.RetCode r = 0
           \<and> set uHostIDs =
               {UHostInstanceSet.UHostID host | host.
                  host \<in> set (DescribeUHostInstanceResponse.UHostSet r)
                  \<and> (\<exists>ip \<in> set (UHostInstanceSet.IPSet host). UHostIPSet.IP ip \<in> set nodeNames)}"
proof -
  from assms obtain r where r: "DescribeUHostInstance env (Cloud.UClient c)
               (zero_DescribeUHostInstanceParam
                  \<lparr>DescribeUHostInstanceParam.Region := Cloud.Region c,
                   DescribeUHostInstanceParam.ProjectID := Cloud.ProjectID c,
                   DescribeUHostInstanceParam.Limit := 100\<rparr>) w1 = ((Some r, None), w2)"
    "ReturnStatus.RetCode r = 0"
    "uHostIDs = concat (map (\<lambda>host.
                  map (\<lambda>ip. UHostInstanceSet.UHostID host)
                    (filter (\<lambda>ip. UHostIPSet.IP ip \<in> set nodeNames)
                       (UHostInstanceSet.IPSet host)))
                (DescribeUHostInstanceResponse.UHostSet r))"
    unfolding getUHostIDs_def Let_def
    by (auto simp: fmdom_boolMap fset_of_list.rep_eq split: prod.splits option.splits if_splits)
  have "set uHostIDs =
          {UHostInstanceSet.UHostID host | host.
             host \<in> set (DescribeUHostInstanceResponse.UHostSet r)
             \<and> (\<exists>ip \<in> set (UHostInstanceSet.IPSet host). UHostIPSet.IP ip \<in> set nodeNames)}"
    unfolding r(3) by fastforce
  with r(1,2) show ?thesis by blast
qed

text \<open>
  Claim C4, as the code has it.  Let the lookup find the load balancer, the service have
  a port, the host lookup return the host ids \<open>uHostIDs\<close> and the load balancer have a
  virtual server \<open>vs\<close>; the bound resource ids are those of the backends of \<open>vs\<close>.
  \<^item> \<open>released\<close> has one entry for each bound resource id that is not among \<open>uHostIDs\<close>,
    with the backend id of the last backend listed with that resource id; when no
    resource id is listed twice these are exactly the bindings no longer desired.
  \<^item> \<open>allocated\<close> has one entry for each host id of \<open>uHostIDs\<close> that is not bound.
  \<^item> With \<open>{A, B}\<close> bound and \<open>{B, C}\<close> desired these are one release, for \<open>A\<close>, and
    one allocation, for \<open>C\<close>.
  \<^item> \<^verbatim>\<open>UpdateLoadBalancer\<close> does not panic.  After the two lookups it fetches the first
    \<open>n\<close> calls of the plan (the releases, then the allocations), each once and in order,
    and logs nothing.  Every call before the last fetched has succeeded.  If it returns
    nil, all calls of the plan were fetched and all succeeded; if it returns an error, that
    is the error of the last call fetched, and the calls after it are not issued.
  \<^item> \<open>uHostIDs\<close> are the ids of the instances that \<^verbatim>\<open>DescribeUHostInstance\<close> lists with
    an IP among the node names.
\<close>

theorem UpdateLoadBalancer_releases_and_allocates:
  assumes look: "describeLoadBalancer env c (GetLoadBalancerName env service) w
                   = (Inr (Some ulb, None), w1)"
    and ports: "ServiceSpec.Ports (Service.Spec service) = sp # ports"
    and hosts: "getUHostIDs env c nodeNames w1 = (Inr (uHostIDs, None), w2)"
    and vs: "ULBSet.VServerSet ulb = vs # vss"
  shows "\<exists>released allocated n err w3.
           UpdateLoadBalancer env c clusterName service nodeNames w = (Inr err, w3)
         \<and> distinct (map fst released)
         \<and> set (map fst released) =
             ULBBackendSet.ResourceID ` set (ULBVServerSet.VServerSet vs) - set uHostIDs
         \<and> (\<forall>(host, backendID) \<in> set released.
               \<exists>pre b post. ULBVServerSet.VServerSet vs = pre @ b # post
                 \<and> ULBBackendSet.ResourceID b = host \<and> ULBBackendSet.BackendID b = backendID
                 \<and> host \<notin> ULBBackendSet.ResourceID ` set post)
         \<and> (distinct (map ULBBackendSet.ResourceID (ULBVServerSet.VServerSet vs)) \<longrightarrow>
               set released =
                 (\<lambda>b. (ULBBackendSet.ResourceID b, ULBBackendSet.BackendID b)) `
                   {b \<in> set (ULBVServerSet.VServerSet vs).
                      ULBBackendSet.ResourceID b \<notin> set uHostIDs})
         \<and> distinct allocated
         \<and> set allocated =
             set uHostIDs - ULBBackendSet.ResourceID ` set (ULBVServerSet.VServerSet vs)
         \<and> (\<forall>A B C. ULBBackendSet.ResourceID ` set (ULBVServerSet.VServerSet vs) = {A, B}
                    \<and> set uHostIDs = {B, C} \<and> A \<noteq> B \<and> A \<noteq> C \<and> B \<noteq> C \<longrightarrow>
                (\<exists>backendID. released = [(A, backendID)]) \<and> allocated = [C])
         \<and> (let plan = updatePlan env c (ULBSet.ULBID ulb) (ULBVServerSet.VserverID vs)
                          (sint (ServicePort.Port sp)) released allocated
            in n \<le> length plan
             \<and> requests w3 = requests w2 @ map fst (take n plan)
             \<and> errlog w3 = errlog w2
             \<and> (\<forall>i<n. callError env (requests w2 @ map fst (take i plan)) (plan ! i)
                         = (if Suc i = n then err else None))
             \<and> (err = None \<longrightarrow> n = length plan)
             \<and> (err \<noteq> None \<longrightarrow> 0 < n))
         \<and> (\<exists>r. DescribeUHostInstance env (Cloud.UClient c)
                   (zero_DescribeUHostInstanceParam
                      \<lparr>DescribeUHostInstanceParam.Region := Cloud.Region c,
                       DescribeUHostInstanceParam.ProjectID := Cloud.ProjectID c,
                       DescribeUHostInstanceParam.Limit := 100\<rparr>) w1 = ((Some r, None), w2)
               \<and> ReturnStatus.RetCode r = 0
               \<and> set uHostIDs =
                   {UHostInstanceSet.UHostID host | host.
                      host \<in> set (DescribeUHostInstanceResponse.UHostSet r)
                      \<and> (\<exists>ip \<in> set (UHostInstanceSet.IPSet host).
                            UHostIPSet.IP ip \<in> set nodeNames)})"
proof -
  let ?bs = "ULBVServerSet.VServerSet vs"
  let ?m1 = "boolMap uHostIDs"
  let ?m2 = "backendMap ?bs"
  let ?released = "filter (\<lambda>(host, backendID). host |\<notin>| fmdom ?m1) (rangeMap env ?m2)"
  let ?allocated = "filter (\<lambda>host. host |\<notin>| fmdom ?m2) (map fst (rangeMap env ?m1))"
  let ?plan = "updatePlan env c (ULBSet.ULBID ulb) (ULBVServerSet.VserverID vs)
                 (sint (ServicePort.Port sp)) ?released ?allocated"
  obtain err w3 where rp: "runPlan env ?plan w2 = (err, w3)" by (metis surj_pair)
  have run: "UpdateLoadBalancer env c clusterName service nodeNames w = (Inr err, w3)"
    unfolding UpdateLoadBalancer_runPlan[OF look ports hosts vs] rp by simp
  from runPlan_stops_at_first_failure[OF rp] obtain n where n: "n \<le> length ?plan"
      "requests w3 = requests w2 @ map fst (take n ?plan)"
      "errlog w3 = errlog w2"
      "\<forall>i<n. callError env (requests w2 @ map fst (take i ?plan)) (?plan ! i)
                       = (if Suc i = n then err else None)"
      "err = None \<longrightarrow> n = length ?plan" "err \<noteq> None \<longrightarrow> 0 < n"
    by blast
  have fr: "map fst ?released = filter (\<lambda>host. host |\<notin>| fmdom ?m1) (map fst (rangeMap env ?m2))"
    by (simp add: filter_map o_def case_prod_unfold)
  have d1: "distinct (map fst ?released)"
    unfolding fr using distinct_rangeMap by (rule distinct_filter)
  have s1: "set (map fst ?released) = ULBBackendSet.ResourceID ` set ?bs - set uHostIDs"
    unfolding fr
    by (auto simp: set_fst_rangeMap fmdom_boolMap fmdom_backendMap fset_of_list.rep_eq
        simp del: set_map)
  have l1: "\<forall>(host, backendID) \<in> set ?released.
               \<exists>pre b post. ?bs = pre @ b # post
                 \<and> ULBBackendSet.ResourceID b = host \<and> ULBBackendSet.BackendID b = backendID
                 \<and> host \<notin> ULBBackendSet.ResourceID ` set post"
    by (auto dest!: rangeMap_lookup fmlookup_backendMap_last)
  have sr: "set ?released = {(host, backendID). fmlookup ?m2 host = Some backendID
                               \<and> host \<notin> set uHostIDs}"
    by (auto simp: fmdom_boolMap fset_of_list.rep_eq dest: rangeMap_lookup intro: rangeMap_complete)
  have e1: "set ?released =
                 (\<lambda>b. (ULBBackendSet.ResourceID b, ULBBackendSet.BackendID b)) `
                   {b \<in> set ?bs. ULBBackendSet.ResourceID b \<notin> set uHostIDs}"
    if dis: "distinct (map ULBBackendSet.ResourceID ?bs)"
  proof -
    have lk: "fmlookup ?m2 host = Some backendID \<longleftrightarrow>
                (\<exists>b \<in> set ?bs. ULBBackendSet.ResourceID b = host
                     \<and> ULBBackendSet.BackendID b = backendID)" for host backendID
    proof
      assume "fmlookup ?m2 host = Some backendID"
      from fmlookup_backendMap_last[OF this] show "\<exists>b \<in> set ?bs.
          ULBBackendSet.ResourceID b = host \<and> ULBBackendSet.BackendID b = backendID"
        by (metis in_set_conv_decomp)
    next
      assume "\<exists>b \<in> set ?bs. ULBBackendSet.ResourceID b = host
                     \<and> ULBBackendSet.BackendID b = backendID"
      then obtain b where b: "b \<in> set ?bs" "ULBBackendSet.ResourceID b = host"
        "ULBBackendSet.BackendID b = backendID" by blast
      then have "host |\<in>| fmdom ?m2" by (auto simp: fmdom_backendMap fset_of_list.rep_eq)
      then obtain y where y: "fmlookup ?m2 host = Some y" by (auto dest: fmdom_notD)
      from fmlookup_backendMap_last[OF y] obtain pre b' post where
        b': "?bs = pre @ b' # post" "ULBBackendSet.ResourceID b' = host"
        "ULBBackendSet.BackendID b' = y" by blast
      then have "b' \<in> set ?bs" by simp
      with dis b b'(2) have "b' = b" by (meson distinct_map inj_onD)
      with b'(3) b(3) y show "fmlookup ?m2 host = Some backendID" by simp
    qed
    show ?thesis unfolding sr by (auto simp: lk)
  qed
  have d2: "distinct ?allocated"
    using distinct_rangeMap by (rule distinct_filter)
  have s2: "set ?allocated = set uHostIDs - ULBBackendSet.ResourceID ` set ?bs"
    by (auto simp: set_fst_rangeMap fmdom_boolMap fmdom_backendMap fset_of_list.rep_eq
        simp del: set_map)
  have one: "\<exists>y. xs = [y] \<and> f y = a" if "distinct (map f xs)" "set (map f xs) = {a}"
    for xs :: "'x list" and f :: "'x \<Rightarrow> 'y" and a
  proof (cases xs)
    case Nil
    with that show ?thesis by simp
  next
    case (Cons y ys)
    with that have "f y = a" "set (map f ys) \<subseteq> {a}" "a \<notin> set (map f ys)" by auto
    then have "ys = []" by (cases ys) auto
    with Cons \<open>f y = a\<close> show ?thesis by simp
  qed
  have scen: "(\<exists>backendID. ?released = [(A, backendID)]) \<and> ?allocated = [C]"
    if "ULBBackendSet.ResourceID ` set ?bs = {A, B}
        \<and> set uHostIDs = {B, C} \<and> A \<noteq> B \<and> A \<noteq> C \<and> B \<noteq> C" for A B C
  proof -
    from that have "set (map fst ?released) = {A}" unfolding s1 by auto
    from one[OF d1 this] have r: "\<exists>backendID. ?released = [(A, backendID)]"
      by (metis prod.collapse)
    from that have "set (map (\<lambda>x. x) ?allocated) = {C}" using s2 by auto
    moreover have "distinct (map (\<lambda>x. x) ?allocated)" using d2 by simp
    ultimately have "?allocated = [C]" using one[of "\<lambda>x. x" ?allocated C] by auto
    with r show ?thesis by blast
  qed
  show ?thesis
    apply (rule exI[of _ ?released], rule exI[of _ ?allocated], rule exI[of _ n],
        rule exI[of _ err], rule exI[of _ w3])
    apply (intro conjI)
    subgoal by (rule run)
    subgoal by (rule d1)
    subgoal by (rule s1)
    subgoal by (rule l1)
    subgoal using e1 by blast
    subgoal by (rule d2)
    subgoal by (rule s2)
    subgoal using scen by blast
    subgoal using n unfolding Let_def by blast
    subgoal by (rule getUHostIDs_resolves[OF hosts])
    done
qed

lemma example_lookup:
  assumes "net [] (describeULB_URL example_cloud) = Inr 0"
  shows "describeLoadBalancer (example_env net [example_bound] hosts) example_cloud
           (GetLoadBalancerName (example_env net [example_bound] hosts) example_service)
           example_world
         = (Inr (Some example_bound, None),
            \<lparr>requests = [describeULB_URL example_cloud], errlog = []\<rparr>)"
  using assms
  by (simp add: describeLoadBalancer_def DescribeULB_def getAndDecode_def describeULB_URL_def
      example_defs example_bound_def)

lemma example_getUHostIDs:
  assumes "net [describeULB_URL example_cloud] (describeUHostInstance_URL example_cloud) = Inr 0"
  shows "getUHostIDs (example_env net ulbs example_hosts) example_cloud
           [''10.0.0.2'', ''10.0.0.3'']
           \<lparr>requests = [describeULB_URL example_cloud], errlog = []\<rparr>
         = (Inr ([''uhost-b'', ''uhost-c''], None),
            \<lparr>requests = [describeULB_URL example_cloud, describeUHostInstance_URL example_cloud],
             errlog = []\<rparr>)"
  using assms
  by (simp add: getUHostIDs_def DescribeUHostInstance_def getAndDecode_def
      describeUHostInstance_URL_def fmdom_boolMap example_defs example_hosts_def)

lemma example_backendMap:
  "fmlookup (backendMap [example_backend ''uhost-a'' ''backend-a'',
                         example_backend ''uhost-b'' ''backend-b'']) ''uhost-a''
     = Some ''backend-a''"
  by (simp add: backendMap_def example_backend_def)

lemma example_rangeMap:
  "rangeMap (example_env net ulbs hosts)
     (backendMap [example_backend ''uhost-a'' ''backend-a'',
                  example_backend ''uhost-b'' ''backend-b''])
   = [(''uhost-a'', ''backend-a''), (''uhost-b'', ''backend-b'')]"
  by code_simp

lemma example_calls_succeed:
  "callError (example_env (\<lambda>h u. Inr 0) ulbs hs) h
     (url, bodyError (decodeStatus (example_env (\<lambda>h u. Inr 0) ulbs hs))) = None"
  "callError (example_env (\<lambda>h u. Inr 0) ulbs hs) h
     (url, bodyError (decodeAllocateBackend (example_env (\<lambda>h u. Inr 0) ulbs hs))) = None"
  by (simp_all add: callError_def bodyError_def example_defs)

text \<open>
  The theorem at the scenario: \<^verbatim>\<open>uhost-a\<close> and \<^verbatim>\<open>uhost-b\<close> bound, \<^verbatim>\<open>uhost-b\<close>
  and \<^verbatim>\<open>uhost-c\<close> desired, an endpoint that answers 0 to everything.
\<close>

theorem UpdateLoadBalancer_releases_and_allocates_witness:
  "UpdateLoadBalancer (example_env (\<lambda>h u. Inr 0) [example_bound] example_hosts)
     example_cloud ''kubernetes'' example_service [''10.0.0.2'', ''10.0.0.3''] example_world
   = (Inr None,
      \<lparr>requests =
         [describeULB_URL example_cloud, describeUHostInstance_URL example_cloud,
          releaseURL example_cloud ''ulb-1'' ''backend-a'',
          allocateURL example_cloud ''ulb-1'' ''vserver-1'' 4000 ''uhost-c''],
       errlog = []\<rparr>)"
proof -
  let ?env = "example_env (\<lambda>h u. Inr 0) [example_bound] example_hosts"
  let ?bs = "[example_backend ''uhost-a'' ''backend-a'', example_backend ''uhost-b'' ''backend-b'']"
  let ?vs = "\<lparr>ULBVServerSet.VserverID = ''vserver-1'', ULBVServerSet.VServerName = ''tidb-server'',
          ULBVServerSet.Protocol = ''TCP'', ULBVServerSet.FrontendPort = 4000,
          ULBVServerSet.Method = [], ULBVServerSet.PersistenceType = [],
          ULBVServerSet.PersistenceInfo = [], ULBVServerSet.ClientTimeout = 60,
          ULBVServerSet.Status = 0, ULBVServerSet.SSLSet = [],
          ULBVServerSet.VServerSet = ?bs\<rparr>"
  have look: "describeLoadBalancer ?env example_cloud (GetLoadBalancerName ?env example_service)
                example_world
              = (Inr (Some example_bound, None),
                 \<lparr>requests = [describeULB_URL example_cloud], errlog = []\<rparr>)"
    by (rule example_lookup) simp
  have ports: "ServiceSpec.Ports (Service.Spec example_service) = \<lparr>ServicePort.Port = 4000\<rparr> # []"
    by (simp add: example_service_def)
  have hosts: "getUHostIDs ?env example_cloud [''10.0.0.2'', ''10.0.0.3'']
                 \<lparr>requests = [describeULB_URL example_cloud], errlog = []\<rparr>
               = (Inr ([''uhost-b'', ''uhost-c''], None),
                  \<lparr>requests = [describeULB_URL example_cloud,
                                describeUHostInstance_URL example_cloud], errlog = []\<rparr>)"
    by (rule example_getUHostIDs) simp
  have vs: "ULBSet.VServerSet example_bound = ?vs # []"
    by (simp add: example_bound_def example_ULBSet_def)
  have ids: "ULBSet.ULBID example_bound = ''ulb-1''" "ULBVServerSet.VserverID ?vs = ''vserver-1''"
    "ULBVServerSet.VServerSet ?vs = ?bs" "sint (ServicePort.Port \<lparr>ServicePort.Port = 4000\<rparr>) = 4000"
    by (simp_all add: example_bound_def example_ULBSet_def)
  show ?thesis
    using UpdateLoadBalancer_releases_and_allocates[OF look ports hosts vs, of "''kubernetes''"]
    unfolding ids Let_def
    apply (elim exE conjE)
    subgoal premises prems for released allocated n err w3 r
    proof -
      have "(\<exists>backendID. released = [(''uhost-a'', backendID)]) \<and> allocated = [''uhost-c'']"
        by (rule prems(8)[rule_format, of "''uhost-a''" "''uhost-b''" "''uhost-c''"])
           (simp add: example_backend_def)
      then obtain backendID where rel: "released = [(''uhost-a'', backendID)]"
        and al: "allocated = [''uhost-c'']" by blast
      from prems(4) rel obtain pre b post where
        b: "?bs = pre @ b # post" "ULBBackendSet.ResourceID b = ''uhost-a''"
           "ULBBackendSet.BackendID b = backendID"
        by auto
      from b(1) have "b \<in> set ?bs" by (metis in_set_conv_decomp)
      with b(2,3) have bid: "backendID = ''backend-a''" by (auto simp: example_backend_def)
      let ?plan = "updatePlan ?env example_cloud ''ulb-1'' ''vserver-1'' 4000 released allocated"
      have plan: "?plan =
          [(releaseURL example_cloud ''ulb-1'' ''backend-a'', bodyError (decodeStatus ?env)),
           (allocateURL example_cloud ''ulb-1'' ''vserver-1'' 4000 ''uhost-c'',
            bodyError (decodeAllocateBackend ?env))]"
        by (simp add: updatePlan_def rel al bid)
      have ok: "callError ?env h (?plan ! i) = None" if "i < 2" for i h
      proof -
        from that have "i = 0 \<or> i = 1" by auto
        then show ?thesis unfolding plan by (auto simp: example_calls_succeed)
      qed
      have "err = None"
      proof (rule ccontr)
        assume ne: "err \<noteq> None"
        with prems(17) have "0 < n" by simp
        then have "n - 1 < n" "Suc (n - 1) = n" by auto
        with prems(15) have "callError ?env
            ([describeULB_URL example_cloud, describeUHostInstance_URL example_cloud]
               @ map fst (take (n - 1) ?plan)) (?plan ! (n - 1)) = err" by auto
        moreover from prems(9) \<open>0 < n\<close> have "n - 1 < 2" by (simp add: plan)
        ultimately show False using ok ne by simp
      qed
      with prems(16) have "n = 2" by (simp add: plan)
      with prems(11,14) have "w3 = \<lparr>requests =
         [describeULB_URL example_cloud, describeUHostInstance_URL example_cloud,
          releaseURL example_cloud ''ulb-1'' ''backend-a'',
          allocateURL example_cloud ''ulb-1'' ''vserver-1'' 4000 ''uhost-c''],
       errlog = []\<rparr>"
        by (cases w3) (simp add: plan)
      with prems(1) \<open>err = None\<close> show ?thesis by simp
    qed
    done
qed

text \<open>
  Claim C4 as stated fails: in the same scenario, at an endpoint where the third
  request fails at the transport level, \<^verbatim>\<open>UpdateLoadBalancer\<close> returns that error
  after the \<^verbatim>\<open>ReleaseBackend\<close> request for \<^verbatim>\<open>uhost-a\<close> and issues no
  \<^verbatim>\<open>AllocateBackend\<close> request for \<^verbatim>\<open>uhost-c\<close>.
\<close>

theorem UpdateLoadBalancer_stops_at_failed_release:
  "UpdateLoadBalancer
     (example_env (\<lambda>h u. if length h < 2 then Inr 0 else Inl ''i/o timeout'')
        [example_bound] example_hosts)
     example_cloud ''kubernetes'' example_service [''10.0.0.2'', ''10.0.0.3''] example_world
   = (Inr (Some (HttpError ''i/o timeout'')),
      \<lparr>requests =
         [describeULB_URL example_cloud, describeUHostInstance_URL example_cloud,
          releaseURL example_cloud ''ulb-1'' ''backend-a''],
       errlog = []\<rparr>)"
proof -
  let ?env = "example_env (\<lambda>h u. if length h < 2 then Inr 0 else Inl ''i/o timeout'')
        [example_bound] example_hosts"
  let ?bs = "[example_backend ''uhost-a'' ''backend-a'', example_backend ''uhost-b'' ''backend-b'']"
  let ?vs = "\<lparr>ULBVServerSet.VserverID = ''vserver-1'', ULBVServerSet.VServerName = ''tidb-server'',
          ULBVServerSet.Protocol = ''TCP'', ULBVServerSet.FrontendPort = 4000,
          ULBVServerSet.Method = [], ULBVServerSet.PersistenceType = [],
          ULBVServerSet.PersistenceInfo = [], ULBVServerSet.ClientTimeout = 60,
          ULBVServerSet.Status = 0, ULBVServerSet.SSLSet = [],
          ULBVServerSet.VServerSet = ?bs\<rparr>"
  have look: "describeLoadBalancer ?env example_cloud (GetLoadBalancerName ?env example_service)
                example_world
              = (Inr (Some example_bound, None),
                 \<lparr>requests = [describeULB_URL example_cloud], errlog = []\<rparr>)"
    by (rule example_lookup) simp
  have ports: "ServiceSpec.Ports (Service.Spec example_service) = \<lparr>ServicePort.Port = 4000\<rparr> # []"
    by (simp add: example_service_def)
  have hosts: "getUHostIDs ?env example_cloud [''10.0.0.2'', ''10.0.0.3'']
                 \<lparr>requests = [describeULB_URL example_cloud], errlog = []\<rparr>
               = (Inr ([''uhost-b'', ''uhost-c''], None),
                  \<lparr>requests = [describeULB_URL example_cloud,
                                describeUHostInstance_URL example_cloud], errlog = []\<rparr>)"
    by (rule example_getUHostIDs) simp
  have vs: "ULBSet.VServerSet example_bound = ?vs # []"
    by (simp add: example_bound_def example_ULBSet_def)
  have net: "httpGet ?env [describeULB_URL example_cloud, describeUHostInstance_URL example_cloud] u
               = Inl ''i/o timeout''" for u
    by (simp add: example_env_def)
  have ids: "ULBSet.ULBID example_bound = ''ulb-1''" "ULBVServerSet.VserverID ?vs = ''vserver-1''"
    "ULBVServerSet.VServerSet ?vs = ?bs"
    by (simp_all add: example_bound_def example_ULBSet_def)
  show ?thesis
    unfolding UpdateLoadBalancer_after_lookup[OF look ports hosts vs] ids example_rangeMap
    by (simp add: fmdom_boolMap ReleaseBackend_def getAndDecode_def net releaseURL_def Let_def)
qed

end
